theory Spec2Isabelle
  imports Complex_Main
begin

section \<open>Data model\<close>

text \<open>
  Python floats are modelled as HOL reals. In the matcher, the planner and the validator
  below every arithmetic operation and comparison of the source is the exact one, and the
  rounding error of binary floating point is outside the model; the planner is modelled a
  second time with every operation rounded to a double, for the property that depends on
  the rounding (no overlap between consecutive edits). Dictionaries with a fixed key set are records. Where the source tests whether
  a key is present (the validator), the field is an option and \<open>None\<close> is the absent key.
  The keys \<open>start\<close>, \<open>end\<close> and \<open>text\<close> of a transcript segment are the fields
  \<open>seg_start\<close>, \<open>seg_end\<close> and \<open>seg_text\<close>.

  The exceptions of the source are the values of \<open>error\<close>: \<open>TypeError\<close> for
  subscripting \<open>None\<close>, and one constructor for each \<open>ValueError\<close> of the validator,
  carrying what its message prints (the index of the edit, the field or the value).
\<close>

datatype error =
    TypeError
  | MissingEdits
  | MissingField nat string
  | InvalidDuration nat real
  | InvalidStartTime nat real

record segment =
  seg_start :: real
  seg_end :: real
  seg_text :: string

record clip =
  clip_name :: string
  description :: string

record edit =
  start_time :: "real option"
  duration :: "real option"
  b_roll_clip :: "string option"
  reason :: "string option"
  transcript_text :: "string option"
  similarity_score :: "real option"

record metadata =
  total_segments :: nat
  total_broll_clips :: nat
  edits_applied :: nat
  similarity_threshold :: real
  min_gap_seconds :: real

record edl =
  metadata :: "metadata option"
  edits :: "edit list option"

text \<open>
  The external services the matcher calls. \<open>gemini_embedding\<close> is
  \<open>gemini_client.get_embedding\<close> and \<open>llm_reasoning\<close> is the stripped text of
  \<open>model.generate_content(prompt)\<close> for a segment text, a clip description and a
  score; \<open>None\<close> stands for a raised exception. \<open>fmt2\<close> and \<open>fmt3\<close> are the
  format specifications \<open>:.2f\<close> and \<open>:.3f\<close>.
\<close>

record collaborators =
  gemini_embedding :: "string \<Rightarrow> real list option"
  llm_reasoning :: "string \<Rightarrow> string \<Rightarrow> real \<Rightarrow> string option"
  fmt2 :: "real \<Rightarrow> string"
  fmt3 :: "real \<Rightarrow> string"

section \<open>Matcher\<close>

definition get_embedding :: "collaborators \<Rightarrow> string \<Rightarrow> real list" where
  "get_embedding C txt =
     (case gemini_embedding C txt of
        Some v \<Rightarrow> v
      | None \<Rightarrow> replicate 768 0)"

text \<open>
  \<open>sklearn.metrics.pairwise.cosine_similarity\<close> on two one-row matrices of the same
  width: each row is divided by its Euclidean norm, a zero norm being replaced by 1, and
  the two normalised rows are multiplied.
\<close>

definition dot :: "real list \<Rightarrow> real list \<Rightarrow> real" where
  "dot a b = sum_list (map (\<lambda>(x, y). x * y) (zip a b))"

definition l2_norm :: "real list \<Rightarrow> real" where
  "l2_norm a = sqrt (sum_list (map (\<lambda>x. x * x) a))"

definition normalize_row :: "real list \<Rightarrow> real list" where
  "normalize_row a =
     (let n = l2_norm a; s = (if n = 0 then 1 else n) in map (\<lambda>x. x / s) a)"

definition cosine_similarity :: "real list \<Rightarrow> real list \<Rightarrow> real" where
  "cosine_similarity a b = dot (normalize_row a) (normalize_row b)"

definition compute_similarity :: "real list \<Rightarrow> real list \<Rightarrow> real" where
  "compute_similarity embedding1 embedding2 =
     (if embedding1 = [] \<or> embedding2 = [] then 0
      else if length embedding1 \<noteq> length embedding2 then
        (let min_len = min (length embedding1) (length embedding2)
         in cosine_similarity (take min_len embedding1) (take min_len embedding2))
      else cosine_similarity embedding1 embedding2)"

definition generate_match_reason :: "collaborators \<Rightarrow> string \<Rightarrow> string \<Rightarrow> real \<Rightarrow> string" where
  "generate_match_reason C segment_text clip_description similarity =
     (case llm_reasoning C segment_text clip_description similarity of
        Some reasoning \<Rightarrow> reasoning @ '' (Similarity: '' @ fmt3 C similarity @ '')''
      | None \<Rightarrow>
          ''Semantic match with similarity score '' @ fmt3 C similarity @ ''. '' @
          ''The B-roll '' @ [CHR 0x27] @ clip_description @ [CHR 0x27] @
          '' aligns with the spoken content about '' @ [CHR 0x27] @
          take 50 segment_text @ ''...'' @ [CHR 0x27])"

text \<open>
  The scoring loop of \<open>find_best_match\<close>: the state is \<open>(best_clip, best_score)\<close>,
  replaced only by a strictly greater score.
\<close>

fun best_loop ::
  "collaborators \<Rightarrow> real list \<Rightarrow> clip list \<Rightarrow> clip option \<times> real \<Rightarrow> clip option \<times> real" where
  "best_loop C segment_embedding [] acc = acc"
| "best_loop C segment_embedding (c # cs) (best_clip, best_score) =
     (let clip_embedding = get_embedding C (description c);
          similarity = compute_similarity segment_embedding clip_embedding
      in if similarity > best_score
         then best_loop C segment_embedding cs (Some c, similarity)
         else best_loop C segment_embedding cs (best_clip, best_score))"

text \<open>
  After the loop, \<open>best_clip['description']\<close> raises \<open>TypeError\<close> when
  \<open>best_clip\<close> is still \<open>None\<close>.
\<close>

definition find_best_match ::
  "collaborators \<Rightarrow> string \<Rightarrow> clip list \<Rightarrow> real \<Rightarrow> error + (clip option \<times> real \<times> string)" where
  "find_best_match C segment_text broll_clips threshold =
     (if broll_clips = [] then Inr (None, 0, ''No B-roll clips available'')
      else
        (let segment_embedding = get_embedding C segment_text;
             (best_clip, best_score) = best_loop C segment_embedding broll_clips (None, - 1)
         in if best_score < threshold then
              Inr (None, best_score,
                   ''No B-roll clip matched above threshold '' @ fmt2 C threshold @
                   ''. Best score: '' @ fmt3 C best_score)
            else
              (case best_clip of
                 None \<Rightarrow> Inl TypeError
               | Some c \<Rightarrow>
                   Inr (Some c, best_score,
                        generate_match_reason C segment_text (description c) best_score))))"

section \<open>Planner\<close>

text \<open>
  Python's \<open>round(x, ndigits)\<close> on a float: the nearest multiple of \<open>10 ^ - ndigits\<close>,
  a tie going to the even one.
\<close>

definition round_half_even :: "real \<Rightarrow> int" where
  "round_half_even x =
     (let f = \<lfloor>x\<rfloor>; r = x - of_int f
      in if r < 1 / 2 then f
         else if 1 / 2 < r then f + 1
         else if even f then f else f + 1)"

definition py_round :: "real \<Rightarrow> nat \<Rightarrow> real" where
  "py_round x ndigits = of_int (round_half_even (x * 10 ^ ndigits)) / 10 ^ ndigits"

text \<open>The two variables the loop of \<open>generate_edit_plan\<close> updates.\<close>

record plan_state =
  st_edits :: "edit list"
  last_edit_time :: real

text \<open>One iteration of the loop; \<open>continue\<close> returns the state unchanged.\<close>

definition plan_step ::
  "collaborators \<Rightarrow> clip list \<Rightarrow> real \<Rightarrow> real \<Rightarrow> plan_state \<Rightarrow> segment \<Rightarrow> error + plan_state" where
  "plan_step C broll_clips threshold min_gap st seg =
     (let segment_start = seg_start seg;
          segment_duration = seg_end seg - seg_start seg;
          time_since_last_edit = segment_start - last_edit_time st
      in if time_since_last_edit < min_gap then Inr st
         else
           (case find_best_match C (seg_text seg) broll_clips threshold of
              Inl e \<Rightarrow> Inl e
            | Inr (best_clip, similarity, rsn) \<Rightarrow>
                (case best_clip of
                   None \<Rightarrow> Inr st
                 | Some c \<Rightarrow>
                     (let broll_duration = min (segment_duration * 0.8) segment_duration
                      in if broll_duration < 2 then Inr st
                         else
                           Inr \<lparr>st_edits = st_edits st @
                                  [\<lparr>start_time = Some segment_start,
                                    duration = Some (py_round broll_duration 2),
                                    b_roll_clip = Some (clip_name c),
                                    reason = Some rsn,
                                    transcript_text = Some (take 100 (seg_text seg)),
                                    similarity_score = Some (py_round similarity 3)\<rparr>],
                                last_edit_time = segment_start + broll_duration\<rparr>))))"

fun plan_loop ::
  "collaborators \<Rightarrow> clip list \<Rightarrow> real \<Rightarrow> real \<Rightarrow> segment list \<Rightarrow> plan_state \<Rightarrow> error + plan_state" where
  "plan_loop C broll_clips threshold min_gap [] st = Inr st"
| "plan_loop C broll_clips threshold min_gap (seg # segs) st =
     (case plan_step C broll_clips threshold min_gap st seg of
        Inl e \<Rightarrow> Inl e
      | Inr st' \<Rightarrow> plan_loop C broll_clips threshold min_gap segs st')"

text \<open>
  \<open>generate_edit_plan\<close> with both thresholds given by the caller (the defaults read
  from the environment are not modelled).
\<close>

definition generate_edit_plan ::
  "collaborators \<Rightarrow> segment list \<Rightarrow> clip list \<Rightarrow> real \<Rightarrow> real \<Rightarrow> error + edl" where
  "generate_edit_plan C transcript_segments broll_clips threshold min_gap =
     (case plan_loop C broll_clips threshold min_gap transcript_segments
             \<lparr>st_edits = [], last_edit_time = - min_gap\<rparr> of
        Inl e \<Rightarrow> Inl e
      | Inr st \<Rightarrow>
          Inr \<lparr>metadata = Some \<lparr>total_segments = length transcript_segments,
                                 total_broll_clips = length broll_clips,
                                 edits_applied = length (st_edits st),
                                 similarity_threshold = threshold,
                                 min_gap_seconds = min_gap\<rparr>,
               edits = Some (st_edits st)\<rparr>)"

section \<open>Validator\<close>

text \<open>
  The loop over \<open>enumerate(edl["edits"])\<close>: the four required fields are looked for in
  the order of \<open>required_fields\<close>, then the duration and the start time are checked.
\<close>

fun validate_edits :: "nat \<Rightarrow> edit list \<Rightarrow> error + bool" where
  "validate_edits idx [] = Inr True"
| "validate_edits idx (e # es) =
     (case start_time e of
        None \<Rightarrow> Inl (MissingField idx ''start_time'')
      | Some s \<Rightarrow>
     (case duration e of
        None \<Rightarrow> Inl (MissingField idx ''duration'')
      | Some d \<Rightarrow>
     (case b_roll_clip e of
        None \<Rightarrow> Inl (MissingField idx ''b_roll_clip'')
      | Some _ \<Rightarrow>
     (case reason e of
        None \<Rightarrow> Inl (MissingField idx ''reason'')
      | Some _ \<Rightarrow>
          if d \<le> 0 then Inl (InvalidDuration idx d)
          else if s < 0 then Inl (InvalidStartTime idx s)
          else validate_edits (Suc idx) es))))"

definition validate_edl :: "edl \<Rightarrow> error + bool" where
  "validate_edl e =
     (case edits e of
        None \<Rightarrow> Inl MissingEdits
      | Some es \<Rightarrow> validate_edits 0 es)"

section \<open>Planner in double arithmetic\<close>

text \<open>
  The doubles of the source. \<open>double_round\<close> is the rounding of binary64 arithmetic:
  to the nearest number with a 53-bit significand, a tie going to the even significand.
  The exponent is unbounded, so it is the rounding of the source as long as no result
  overflows or is subnormal.
\<close>

definition double_round :: "real \<Rightarrow> real" where
  "double_round x =
     (if x = 0 then 0
      else (let q = 2 powr (of_int \<lfloor>log 2 \<bar>x\<bar>\<rfloor> - 52)
            in of_int (round_half_even (x / q)) * q))"

text \<open>
  What the proofs below use of a rounding operator: its relative error is at most
  \<open>1 / 2 ^ 53\<close>. \<open>double_round\<close> has this property, and so has the exact arithmetic
  of the sections above (no rounding at all).
\<close>

definition rounds_like_double :: "(real \<Rightarrow> real) \<Rightarrow> bool" where
  "rounds_like_double rnd = (\<forall>x. \<bar>rnd x - x\<bar> \<le> \<bar>x\<bar> / 2 ^ 53)"

text \<open>
  The planner with every floating-point operation of the source rounded by \<open>rnd\<close>:
  the two subtractions, the product with the double nearest to 0.8, the sum
  \<open>segment_start + broll_duration\<close>, and the results of \<open>round\<close>, which are the
  doubles nearest to the decimal values. Comparisons, \<open>min\<close> and the negation
  \<open>- min_gap\<close> are exact. With the identity for \<open>rnd\<close> it is \<open>plan_step\<close>.
\<close>

definition plan_step_fp ::
  "(real \<Rightarrow> real) \<Rightarrow> collaborators \<Rightarrow> clip list \<Rightarrow> real \<Rightarrow> real \<Rightarrow> plan_state \<Rightarrow> segment \<Rightarrow>
   error + plan_state" where
  "plan_step_fp rnd C broll_clips threshold min_gap st seg =
     (let segment_start = seg_start seg;
          segment_duration = rnd (seg_end seg - seg_start seg);
          time_since_last_edit = rnd (segment_start - last_edit_time st)
      in if time_since_last_edit < min_gap then Inr st
         else
           (case find_best_match C (seg_text seg) broll_clips threshold of
              Inl e \<Rightarrow> Inl e
            | Inr (best_clip, similarity, rsn) \<Rightarrow>
                (case best_clip of
                   None \<Rightarrow> Inr st
                 | Some c \<Rightarrow>
                     (let broll_duration =
                            min (rnd (segment_duration * rnd (8 / 10))) segment_duration
                      in if broll_duration < 2 then Inr st
                         else
                           Inr \<lparr>st_edits = st_edits st @
                                  [\<lparr>start_time = Some segment_start,
                                    duration = Some (rnd (py_round broll_duration 2)),
                                    b_roll_clip = Some (clip_name c),
                                    reason = Some rsn,
                                    transcript_text = Some (take 100 (seg_text seg)),
                                    similarity_score = Some (rnd (py_round similarity 3))\<rparr>],
                                last_edit_time = rnd (segment_start + broll_duration)\<rparr>))))"

fun plan_loop_fp ::
  "(real \<Rightarrow> real) \<Rightarrow> collaborators \<Rightarrow> clip list \<Rightarrow> real \<Rightarrow> real \<Rightarrow> segment list \<Rightarrow> plan_state \<Rightarrow>
   error + plan_state" where
  "plan_loop_fp rnd C broll_clips threshold min_gap [] st = Inr st"
| "plan_loop_fp rnd C broll_clips threshold min_gap (seg # segs) st =
     (case plan_step_fp rnd C broll_clips threshold min_gap st seg of
        Inl e \<Rightarrow> Inl e
      | Inr st' \<Rightarrow> plan_loop_fp rnd C broll_clips threshold min_gap segs st')"

definition generate_edit_plan_fp ::
  "(real \<Rightarrow> real) \<Rightarrow> collaborators \<Rightarrow> segment list \<Rightarrow> clip list \<Rightarrow> real \<Rightarrow> real \<Rightarrow> error + edl" where
  "generate_edit_plan_fp rnd C transcript_segments broll_clips threshold min_gap =
     (case plan_loop_fp rnd C broll_clips threshold min_gap transcript_segments
             \<lparr>st_edits = [], last_edit_time = - min_gap\<rparr> of
        Inl e \<Rightarrow> Inl e
      | Inr st \<Rightarrow>
          Inr \<lparr>metadata = Some \<lparr>total_segments = length transcript_segments,
                                 total_broll_clips = length broll_clips,
                                 edits_applied = length (st_edits st),
                                 similarity_threshold = threshold,
                                 min_gap_seconds = min_gap\<rparr>,
               edits = Some (st_edits st)\<rparr>)"

section \<open>Test doubles and properties stated on lists of edits\<close>

text \<open>
  Collaborators for concrete runs: \<open>unit_provider\<close> embeds every text as \<open>[1]\<close>,
  \<open>opposed_provider\<close> embeds the text \<open>''a''\<close> as \<open>[1]\<close> and every other text as
  \<open>[- 1]\<close>, and \<open>failing_provider\<close> raises on every embedding call. The reasoning
  service of each answers \<open>''ok''\<close>.
\<close>

definition unit_provider :: collaborators where
  "unit_provider =
     \<lparr>gemini_embedding = (\<lambda>t. Some [1]), llm_reasoning = (\<lambda>s d x. Some ''ok''),
      fmt2 = (\<lambda>x. ''#''), fmt3 = (\<lambda>x. ''#'')\<rparr>"

definition opposed_provider :: collaborators where
  "opposed_provider =
     \<lparr>gemini_embedding = (\<lambda>t. if t = ''a'' then Some [1] else Some [- 1]),
      llm_reasoning = (\<lambda>s d x. Some ''ok''),
      fmt2 = (\<lambda>x. ''#''), fmt3 = (\<lambda>x. ''#'')\<rparr>"

definition failing_provider :: collaborators where
  "failing_provider =
     \<lparr>gemini_embedding = (\<lambda>t. None), llm_reasoning = (\<lambda>s d x. Some ''ok''),
      fmt2 = (\<lambda>x. ''#''), fmt3 = (\<lambda>x. ''#'')\<rparr>"

text \<open>
  Consecutive edits do not overlap: each edit starts no earlier than the previous one
  ends. An edit without a start time or a duration does not satisfy it.
\<close>

definition ends_before :: "edit \<Rightarrow> edit \<Rightarrow> bool" where
  "ends_before e1 e2 =
     (case (start_time e1, duration e1, start_time e2) of
        (Some s1, Some d1, Some s2) \<Rightarrow> s1 + d1 \<le> s2
      | _ \<Rightarrow> False)"

definition starts_before :: "edit \<Rightarrow> edit \<Rightarrow> bool" where
  "starts_before e1 e2 =
     (case (start_time e1, start_time e2) of
        (Some s1, Some s2) \<Rightarrow> s1 \<le> s2
      | _ \<Rightarrow> False)"

text \<open>
  The validator's rejection condition in the words of the specification, to be compared
  with \<open>validate_edits\<close>: an edit is rejected when one of \<open>start_time\<close>,
  \<open>duration\<close>, the clip name or \<open>reason\<close> is missing, or when its duration is not
  positive or its start time is negative.
\<close>

definition spec_rejected :: "edit \<Rightarrow> bool" where
  "spec_rejected ed =
     (start_time ed = None \<or> duration ed = None \<or> b_roll_clip ed = None \<or> reason ed = None \<or>
      (\<exists>d. duration ed = Some d \<and> d \<le> 0) \<or> (\<exists>s. start_time ed = Some s \<and> s < 0))"

section \<open>Properties of the scorer\<close>

lemma dot_commute: "dot a b = dot b a"
proof (induction a arbitrary: b)
  case Nil
  show ?case by (simp add: dot_def)
next
  case (Cons x xs)
  show ?case
  proof (cases b)
    case Nil
    then show ?thesis by (simp add: dot_def)
  next
    case (Cons y ys)
    with Cons.IH [of ys] show ?thesis by (simp add: dot_def mult.commute)
  qed
qed

text \<open>
  C10. The scorer is symmetric: for all embedding vectors \<open>a\<close> and \<open>b\<close>, empty or of
  different lengths included, \<open>compute_similarity a b = compute_similarity b a\<close>.
\<close>

theorem compute_similarity_symmetric:
  "compute_similarity a b = compute_similarity b a"
  by (simp add: compute_similarity_def cosine_similarity_def dot_commute min.commute Let_def)

lemma dot_Nil [simp]: "dot [] b = 0" "dot a [] = 0"
  by (simp_all add: dot_def)

lemma dot_Cons [simp]: "dot (x # xs) (y # ys) = x * y + dot xs ys"
  by (simp add: dot_def)

lemma dot_scale: "dot (map (\<lambda>x. x / s) a) (map (\<lambda>x. x / t) b) = dot a b / (s * t)"
proof (induction a arbitrary: b)
  case Nil
  show ?case by simp
next
  case (Cons x xs)
  show ?case
  proof (cases b)
    case Nil
    then show ?thesis by simp
  next
    case (Cons y ys)
    with Cons.IH [of ys] show ?thesis by (simp add: add_divide_distrib)
  qed
qed

lemma dot_self: "dot a a = sum_list (map (\<lambda>x. x * x) a)"
  by (induction a) simp_all

lemma sum_squares_nonneg: "0 \<le> sum_list (map (\<lambda>x. x * x) (a :: real list))"
  by (induction a) simp_all

lemma sum_squares_pos:
  "\<exists>x \<in> set a. x \<noteq> 0 \<Longrightarrow> 0 < sum_list (map (\<lambda>x. x * x) (a :: real list))"
proof (induction a)
  case Nil
  then show ?case by simp
next
  case (Cons y ys)
  show ?case
  proof (cases "y = 0")
    case True
    with Cons show ?thesis by simp
  next
    case False
    then have "0 < y * y" by (auto simp: zero_less_mult_iff)
    with sum_squares_nonneg [of ys] show ?thesis by simp
  qed
qed

lemma cosine_similarity_formula:
  "cosine_similarity a b =
     dot a b / ((if l2_norm a = 0 then 1 else l2_norm a) * (if l2_norm b = 0 then 1 else l2_norm b))"
  by (simp add: cosine_similarity_def normalize_row_def Let_def dot_scale)

text \<open>
  In exact arithmetic a vector with a non-zero component has cosine similarity 1 with
  itself. This is a fact about the real-valued scorer of this theory only: the square
  root, the divisions and the sums of the source are rounded to doubles, and nothing here
  says that their result is exactly 1.
\<close>

lemma cosine_similarity_self:
  assumes "\<exists>x \<in> set v. x \<noteq> 0"
  shows "cosine_similarity v v = 1"
proof -
  let ?q = "sum_list (map (\<lambda>x. x * x) v)"
  have pos: "0 < ?q" using assms by (rule sum_squares_pos)
  then have n: "l2_norm v \<noteq> 0" by (simp add: l2_norm_def)
  have "l2_norm v * l2_norm v = ?q"
    using pos by (simp add: l2_norm_def)
  with pos n show ?thesis
    by (simp add: cosine_similarity_formula dot_self)
qed

lemma dot_zeros [simp]: "dot (replicate n 0) b = 0" "dot b (replicate n 0) = 0"
proof -
  show "dot (replicate n 0) b = 0"
  proof (induction n arbitrary: b)
    case 0
    show ?case by simp
  next
    case (Suc n)
    then show ?case by (cases b) simp_all
  qed
  then show "dot b (replicate n 0) = 0" by (simp add: dot_commute)
qed

lemma normalize_row_zeros [simp]: "normalize_row (replicate n 0) = replicate n 0"
  by (simp add: normalize_row_def l2_norm_def Let_def)

lemma compute_similarity_zeros:
  "compute_similarity (replicate n 0) b = 0" "compute_similarity b (replicate n 0) = 0"
  by (simp_all add: compute_similarity_def cosine_similarity_def Let_def)

subsection \<open>The range of the score\<close>

lemma dot_self_nonneg: "0 \<le> dot a a"
  by (simp add: dot_self sum_squares_nonneg)

lemma cross_bound:
  fixes x y s A B :: real
  assumes A: "0 \<le> A" and B: "0 \<le> B" and s: "s * s \<le> A * B"
  shows "2 * (x * y * s) \<le> x * x * B + y * y * A"
proof -
  have "\<bar>s\<bar> = sqrt (s * s)" by simp
  also have "\<dots> \<le> sqrt (A * B)" using s by (rule real_sqrt_le_mono)
  also have "\<dots> = sqrt A * sqrt B" by (rule real_sqrt_mult)
  finally have abs_s: "\<bar>s\<bar> \<le> sqrt A * sqrt B" .
  define u where "u = \<bar>x\<bar> * sqrt B"
  define v where "v = \<bar>y\<bar> * sqrt A"
  have "0 \<le> (u - v) * (u - v)" by simp
  then have uv: "2 * (u * v) \<le> u * u + v * v" by (simp add: algebra_simps)
  have uu: "u * u = x * x * B"
  proof -
    have "u * u = (\<bar>x\<bar> * \<bar>x\<bar>) * (sqrt B * sqrt B)"
      unfolding u_def by (simp only: mult_ac)
    also have "\<dots> = x * x * B" using B by simp
    finally show ?thesis .
  qed
  have vv: "v * v = y * y * A"
  proof -
    have "v * v = (\<bar>y\<bar> * \<bar>y\<bar>) * (sqrt A * sqrt A)"
      unfolding v_def by (simp only: mult_ac)
    also have "\<dots> = y * y * A" using A by simp
    finally show ?thesis .
  qed
  have "x * y * s \<le> \<bar>x * y * s\<bar>" by (rule abs_ge_self)
  also have "\<dots> = (\<bar>x\<bar> * \<bar>y\<bar>) * \<bar>s\<bar>" by (simp add: abs_mult)
  also have "\<dots> \<le> (\<bar>x\<bar> * \<bar>y\<bar>) * (sqrt A * sqrt B)"
    using abs_s by (intro mult_left_mono) simp_all
  also have "\<dots> = u * v" by (simp add: u_def v_def)
  finally have "2 * (x * y * s) \<le> 2 * (u * v)" by simp
  with uv uu vv show ?thesis by simp
qed

lemma dot_cauchy_schwarz: "dot a b * dot a b \<le> dot a a * dot b b"
proof (induction a arbitrary: b)
  case Nil
  show ?case by simp
next
  case (Cons x xs)
  show ?case
  proof (cases b)
    case Nil
    then show ?thesis by simp
  next
    case (Cons y ys)
    have "2 * (x * y * dot xs ys) \<le> x * x * dot ys ys + y * y * dot xs xs"
      using dot_self_nonneg dot_self_nonneg Cons.IH by (rule cross_bound)
    with Cons.IH [of ys] show ?thesis
      unfolding Cons by (simp add: algebra_simps)
  qed
qed

lemma abs_dot_le_norms: "\<bar>dot a b\<bar> \<le> l2_norm a * l2_norm b"
proof -
  have "\<bar>dot a b\<bar> = sqrt (dot a b * dot a b)" by simp
  also have "\<dots> \<le> sqrt (dot a a * dot b b)"
    using dot_cauchy_schwarz by (rule real_sqrt_le_mono)
  also have "\<dots> = l2_norm a * l2_norm b"
    by (simp add: l2_norm_def dot_self real_sqrt_mult)
  finally show ?thesis .
qed

lemma l2_norm_nonneg: "0 \<le> l2_norm a"
  by (simp add: l2_norm_def sum_squares_nonneg)

lemma cosine_similarity_range: "\<bar>cosine_similarity a b\<bar> \<le> 1"
proof (cases "l2_norm a = 0 \<or> l2_norm b = 0")
  case True
  with abs_dot_le_norms [of a b] have "dot a b = 0" by auto
  then show ?thesis by (simp add: cosine_similarity_formula)
next
  case False
  with l2_norm_nonneg [of a] l2_norm_nonneg [of b]
  have pos: "0 < l2_norm a * l2_norm b" by (simp add: zero_less_mult_iff less_le)
  have "\<bar>cosine_similarity a b\<bar> = \<bar>dot a b\<bar> / (l2_norm a * l2_norm b)"
    using False pos by (simp add: cosine_similarity_formula abs_mult l2_norm_nonneg)
  also have "\<dots> \<le> 1" using pos abs_dot_le_norms [of a b] by simp
  finally show ?thesis .
qed

lemma compute_similarity_range:
  "- 1 \<le> compute_similarity a b \<and> compute_similarity a b \<le> 1"
proof -
  have "\<bar>compute_similarity a b\<bar> \<le> 1"
    by (simp add: compute_similarity_def Let_def cosine_similarity_range)
  then show ?thesis by (simp add: abs_le_iff)
qed

text \<open>
  C2. The scorer is claimed to return a value in \<open>[0, 1]\<close>, the cosine similarity being
  clamped into that interval. The source returns the cosine similarity as it is, in
  exact arithmetic a value between \<open>- 1\<close> and 1 (\<open>compute_similarity_range\<close>): on
  the vectors \<open>[1]\<close> and \<open>[- 1]\<close> the result is \<open>- 1\<close>, below the claimed range.
\<close>

theorem compute_similarity_below_zero:
  "compute_similarity [1] [- 1] = - 1 \<and> \<not> 0 \<le> compute_similarity [1] [- 1]"
  by (simp add: compute_similarity_def cosine_similarity_def normalize_row_def l2_norm_def)

text \<open>
  C6, as stated: with an empty catalog the matcher returns the absent clip, the score 0 and
  the reason \<open>''no candidates available''\<close>. The reason of the source is another string,
  so the stated triple is not the result.
\<close>

theorem find_best_match_empty_counterexample:
  "find_best_match unit_provider ''intro'' [] 0.4 \<noteq> Inr (None, 0, ''no candidates available'')"
  by (simp add: find_best_match_def)

text \<open>
  C6, amended. For every segment text and threshold, the matcher called with an empty
  catalog returns the absent clip, the score 0 and the reason
  \<open>''No B-roll clips available''\<close>.
\<close>

theorem find_best_match_empty:
  "find_best_match C segment_text [] threshold = Inr (None, 0, ''No B-roll clips available'')"
  by (simp add: find_best_match_def)

section \<open>Properties of the matcher\<close>

lemma best_loop_char:
  "best_loop C se cs (bc, bs) = (bc', m) \<Longrightarrow>
     ((\<forall>c \<in> set cs. compute_similarity se (get_embedding C (description c)) \<le> bs) \<and> bc' = bc \<and> m = bs) \<or>
     (\<exists>pre c post. cs = pre @ c # post \<and> bc' = Some c \<and>
        m = compute_similarity se (get_embedding C (description c)) \<and> bs < m \<and>
        (\<forall>x \<in> set pre. compute_similarity se (get_embedding C (description x)) < m) \<and>
        (\<forall>x \<in> set post. compute_similarity se (get_embedding C (description x)) \<le> m))"
proof (induction cs arbitrary: bc bs)
  case Nil
  then show ?case by simp
next
  case (Cons a cs)
  let ?s = "\<lambda>c. compute_similarity se (get_embedding C (description c))"
  show ?case
  proof (cases "?s a > bs")
    case True
    with Cons.prems have run: "best_loop C se cs (Some a, ?s a) = (bc', m)"
      by (simp add: Let_def)
    from Cons.IH [OF run] show ?thesis
    proof (elim disjE conjE exE)
      assume "\<forall>c \<in> set cs. ?s c \<le> ?s a" "bc' = Some a" "m = ?s a"
      with True have "a # cs = [] @ a # cs \<and> bc' = Some a \<and> m = ?s a \<and> bs < m \<and>
          (\<forall>x \<in> set []. ?s x < m) \<and> (\<forall>x \<in> set cs. ?s x \<le> m)"
        by simp
      then show ?thesis by blast
    next
      fix pre c post
      assume h: "cs = pre @ c # post" "bc' = Some c" "m = ?s c" "?s a < m"
        "\<forall>x \<in> set pre. ?s x < m" "\<forall>x \<in> set post. ?s x \<le> m"
      with True have "a # cs = (a # pre) @ c # post \<and> bc' = Some c \<and> m = ?s c \<and> bs < m \<and>
          (\<forall>x \<in> set (a # pre). ?s x < m) \<and> (\<forall>x \<in> set post. ?s x \<le> m)"
        by simp
      then show ?thesis by blast
    qed
  next
    case False
    with Cons.prems have run: "best_loop C se cs (bc, bs) = (bc', m)"
      by (simp add: Let_def)
    from Cons.IH [OF run] show ?thesis
    proof (elim disjE conjE exE)
      assume "\<forall>c \<in> set cs. ?s c \<le> bs" "bc' = bc" "m = bs"
      with False show ?thesis by simp
    next
      fix pre c post
      assume h: "cs = pre @ c # post" "bc' = Some c" "m = ?s c" "bs < m"
        "\<forall>x \<in> set pre. ?s x < m" "\<forall>x \<in> set post. ?s x \<le> m"
      with False have "a # cs = (a # pre) @ c # post \<and> bc' = Some c \<and> m = ?s c \<and> bs < m \<and>
          (\<forall>x \<in> set (a # pre). ?s x < m) \<and> (\<forall>x \<in> set post. ?s x \<le> m)"
        by simp
      then show ?thesis by blast
    qed
  qed
qed


lemma best_loop_None:
  assumes "best_loop C se cs (None, bs) = (None, m)"
  shows "m = bs \<and> (\<forall>c \<in> set cs. compute_similarity se (get_embedding C (description c)) \<le> bs)"
  using best_loop_char [OF assms] by auto

lemma find_best_match_error:
  assumes "find_best_match C txt cs threshold = Inl e"
  shows "e = TypeError \<and> threshold \<le> - 1 \<and> cs \<noteq> [] \<and>
         (\<forall>c \<in> set cs. compute_similarity (get_embedding C txt) (get_embedding C (description c)) \<le> - 1)"
proof -
  obtain bc m where run: "best_loop C (get_embedding C txt) cs (None, - 1) = (bc, m)"
    by (cases "best_loop C (get_embedding C txt) cs (None, - 1)")
  from assms run have ne: "cs \<noteq> []" and nb: "\<not> m < threshold" and bc: "bc = None" and e: "e = TypeError"
    by (auto simp: find_best_match_def split: if_splits option.splits)
  from best_loop_None [of C "get_embedding C txt" cs "- 1" m] run bc
  have "m = - 1" and "\<forall>c \<in> set cs. compute_similarity (get_embedding C txt) (get_embedding C (description c)) \<le> - 1"
    by simp_all
  with ne nb e show ?thesis by simp
qed

lemma find_best_match_returns:
  "- 1 < threshold \<Longrightarrow> \<exists>r. find_best_match C txt cs threshold = Inr r"
proof (cases "find_best_match C txt cs threshold")
  case (Inl e)
  assume "- 1 < threshold"
  with find_best_match_error [OF Inl] show ?thesis by simp
next
  case (Inr r)
  then show ?thesis by blast
qed

lemma find_best_match_selects:
  assumes "\<exists>c \<in> set cs. - 1 < compute_similarity (get_embedding C txt) (get_embedding C (description c))"
  shows "\<exists>pre c post. cs = pre @ c # post \<and>
           (\<forall>x \<in> set pre. compute_similarity (get_embedding C txt) (get_embedding C (description x))
                 < compute_similarity (get_embedding C txt) (get_embedding C (description c))) \<and>
           (\<forall>x \<in> set post. compute_similarity (get_embedding C txt) (get_embedding C (description x))
                 \<le> compute_similarity (get_embedding C txt) (get_embedding C (description c))) \<and>
           find_best_match C txt cs threshold =
             (let m = compute_similarity (get_embedding C txt) (get_embedding C (description c))
              in if m < threshold then
                   Inr (None, m, ''No B-roll clip matched above threshold '' @ fmt2 C threshold @
                                 ''. Best score: '' @ fmt3 C m)
                 else Inr (Some c, m, generate_match_reason C txt (description c) m))"
proof -
  let ?se = "get_embedding C txt"
  let ?s = "\<lambda>c. compute_similarity ?se (get_embedding C (description c))"
  obtain bc m where run: "best_loop C ?se cs (None, - 1) = (bc, m)"
    by (cases "best_loop C ?se cs (None, - 1)")
  from assms have ne: "cs \<noteq> []" by auto
  from best_loop_char [OF run] assms
  obtain pre c post where h: "cs = pre @ c # post" "bc = Some c" "m = ?s c"
      "\<forall>x \<in> set pre. ?s x < m" "\<forall>x \<in> set post. ?s x \<le> m"
    by (auto simp: not_le [symmetric])
  have "find_best_match C txt cs threshold =
      (let m = ?s c in if m < threshold then
         Inr (None, m, ''No B-roll clip matched above threshold '' @ fmt2 C threshold @
                       ''. Best score: '' @ fmt3 C m)
       else Inr (Some c, m, generate_match_reason C txt (description c) m))"
    using ne run h(2,3) by (simp add: find_best_match_def Let_def)
  with h show ?thesis by blast
qed

lemma find_best_match_sentinel:
  assumes "cs \<noteq> []"
    and "\<forall>c \<in> set cs. compute_similarity (get_embedding C txt) (get_embedding C (description c)) \<le> - 1"
  shows "find_best_match C txt cs threshold =
           (if - 1 < threshold then
              Inr (None, - 1, ''No B-roll clip matched above threshold '' @ fmt2 C threshold @
                              ''. Best score: '' @ fmt3 C (- 1))
            else Inl TypeError)"
proof -
  let ?se = "get_embedding C txt"
  obtain bc m where run: "best_loop C ?se cs (None, - 1) = (bc, m)"
    by (cases "best_loop C ?se cs (None, - 1)")
  from best_loop_char [OF run] assms(2) have "bc = None" "m = - 1"
    by (auto simp: not_le [symmetric])
  with run assms(1) show ?thesis
    by (simp add: find_best_match_def)
qed

text \<open>
  C4. The matcher is claimed to select, for every non-empty catalog, the clip with the
  highest score (the first one on a tie). The loop starts from the score \<open>- 1\<close> and
  replaces the best clip only on a strictly greater score, so a catalog whose scores are all
  \<open>- 1\<close> selects no clip: with a threshold of \<open>- 1\<close> the winning score meets the
  threshold, and the source raises \<open>TypeError\<close> on the absent clip instead of returning
  the first clip. Where some clip scores above \<open>- 1\<close> the selection is the claimed one
  (\<open>find_best_match_selects\<close>).
\<close>

theorem find_best_match_sentinel_raises:
  "compute_similarity (get_embedding opposed_provider ''a'') (get_embedding opposed_provider ''d'') = - 1 \<and>
   find_best_match opposed_provider ''a'' [\<lparr>clip_name = ''c'', description = ''d''\<rparr>] (- 1) = Inl TypeError"
  by (simp add: find_best_match_def get_embedding_def opposed_provider_def compute_similarity_def
      cosine_similarity_def normalize_row_def l2_norm_def)

lemma get_embedding_failure:
  "gemini_embedding C txt = None \<Longrightarrow> get_embedding C txt = replicate 768 0"
  by (simp add: get_embedding_def)

text \<open>
  C9. When the embedding collaborator fails for a text, \<open>get_embedding\<close> returns the
  vector of 768 zeros; that vector scores 0 against every embedding, on either side; and
  the matcher returns a result, whether the failing text is the segment text or the
  description of a clip of the catalog.
\<close>

theorem get_embedding_failure_neutral:
  assumes "gemini_embedding C txt = None"
  shows "get_embedding C txt = replicate 768 0 \<and>
         (\<forall>b. compute_similarity (get_embedding C txt) b = 0 \<and>
              compute_similarity b (get_embedding C txt) = 0) \<and>
         (\<forall>cs threshold. \<exists>r. find_best_match C txt cs threshold = Inr r) \<and>
         (\<forall>seg_txt cs threshold. (\<exists>c \<in> set cs. description c = txt) \<longrightarrow>
              (\<exists>r. find_best_match C seg_txt cs threshold = Inr r))"
proof -
  have z: "get_embedding C txt = replicate 768 0"
    using assms by (rule get_embedding_failure)
  have a: "\<forall>b. compute_similarity (get_embedding C txt) b = 0 \<and>
              compute_similarity b (get_embedding C txt) = 0"
    by (simp add: z compute_similarity_zeros)
  have b: "\<exists>r. find_best_match C txt cs threshold = Inr r" for cs threshold
  proof (cases "find_best_match C txt cs threshold")
    case (Inl e)
    from find_best_match_error [OF Inl] a have False
      by (cases cs) auto
    then show ?thesis ..
  next
    case (Inr r)
    then show ?thesis by blast
  qed
  have c: "\<exists>r. find_best_match C seg_txt cs threshold = Inr r"
    if "\<exists>c \<in> set cs. description c = txt" for seg_txt cs threshold
  proof (cases "find_best_match C seg_txt cs threshold")
    case (Inl e)
    from find_best_match_error [OF Inl] a that have False
      by force
    then show ?thesis ..
  next
    case (Inr r)
    then show ?thesis by blast
  qed
  from z a b c show ?thesis by blast
qed

theorem get_embedding_failure_neutral_witness:
  "gemini_embedding failing_provider ''intro'' = None \<and>
   get_embedding failing_provider ''intro'' = replicate 768 0 \<and>
   compute_similarity (get_embedding failing_provider ''intro'') [1, 2] = 0 \<and>
   (\<exists>r. find_best_match failing_provider ''intro'' [\<lparr>clip_name = ''c'', description = ''d''\<rparr>] 0.4 = Inr r)"
proof -
  have h: "gemini_embedding failing_provider ''intro'' = None"
    by (simp add: failing_provider_def)
  from get_embedding_failure_neutral [OF h] h show ?thesis by blast
qed

section \<open>Properties of the planner\<close>

lemma round_half_even_upper: "of_int (round_half_even x) \<le> x + 1 / 2"
  unfolding round_half_even_def Let_def by (auto, linarith+)

lemma round_half_even_lower: "x - 1 / 2 \<le> of_int (round_half_even x)"
  unfolding round_half_even_def Let_def by (auto, linarith+)

lemma round_half_even_ge_int: "of_int n \<le> x \<Longrightarrow> n \<le> round_half_even x"
proof -
  assume "of_int n \<le> x"
  then have "n \<le> \<lfloor>x\<rfloor>" by (simp add: le_floor_iff)
  then show ?thesis
    unfolding round_half_even_def Let_def by auto
qed

lemma py_round_upper: "py_round x 2 \<le> x + 1 / 200"
proof -
  have "of_int (round_half_even (x * 100)) \<le> x * 100 + 1 / 2"
    by (rule round_half_even_upper)
  then show ?thesis by (simp add: py_round_def field_simps)
qed

lemma py_round_ge_2: "2 \<le> x \<Longrightarrow> 2 \<le> py_round x 2"
proof -
  assume "2 \<le> x"
  then have "of_int 200 \<le> x * 100" by simp
  then have "200 \<le> round_half_even (x * 100)" by (rule round_half_even_ge_int)
  then have "(200 :: real) \<le> of_int (round_half_even (x * 100))" by linarith
  then show ?thesis by (simp add: py_round_def field_simps)
qed

lemma plan_step_Inr:
  assumes "plan_step C cs threshold min_gap st seg = Inr st'"
  shows "st' = st \<or>
         (\<exists>c sim r. find_best_match C (seg_text seg) cs threshold = Inr (Some c, sim, r) \<and>
            min_gap \<le> seg_start seg - last_edit_time st \<and>
            2 \<le> min ((seg_end seg - seg_start seg) * 0.8) (seg_end seg - seg_start seg) \<and>
            st' = \<lparr>st_edits = st_edits st @
                     [\<lparr>start_time = Some (seg_start seg),
                       duration = Some (py_round (min ((seg_end seg - seg_start seg) * 0.8)
                                                      (seg_end seg - seg_start seg)) 2),
                       b_roll_clip = Some (clip_name c),
                       reason = Some r,
                       transcript_text = Some (take 100 (seg_text seg)),
                       similarity_score = Some (py_round sim 3)\<rparr>],
                   last_edit_time = seg_start seg +
                     min ((seg_end seg - seg_start seg) * 0.8) (seg_end seg - seg_start seg)\<rparr>)"
proof -
  define b where "b = min ((seg_end seg - seg_start seg) * 0.8) (seg_end seg - seg_start seg)"
  have unfolded: "plan_step C cs threshold min_gap st seg =
     (if seg_start seg - last_edit_time st < min_gap then Inr st
      else
        (case find_best_match C (seg_text seg) cs threshold of
           Inl e \<Rightarrow> Inl e
         | Inr (best_clip, similarity, rsn) \<Rightarrow>
             (case best_clip of
                None \<Rightarrow> Inr st
              | Some c \<Rightarrow>
                  if b < 2 then Inr st
                  else
                    Inr \<lparr>st_edits = st_edits st @
                           [\<lparr>start_time = Some (seg_start seg),
                             duration = Some (py_round b 2),
                             b_roll_clip = Some (clip_name c),
                             reason = Some rsn,
                             transcript_text = Some (take 100 (seg_text seg)),
                             similarity_score = Some (py_round similarity 3)\<rparr>],
                         last_edit_time = seg_start seg + b\<rparr>)))"
    unfolding plan_step_def Let_def b_def by simp
  from assms show ?thesis
    unfolding unfolded b_def [symmetric]
    by (auto split: if_splits sum.splits option.splits prod.splits)
qed

lemma plan_step_Inl:
  assumes "plan_step C cs threshold min_gap st seg = Inl e"
  shows "e = TypeError \<and> threshold \<le> - 1"
proof -
  from assms have "find_best_match C (seg_text seg) cs threshold = Inl e"
    by (auto simp: plan_step_def Let_def split: if_splits sum.splits option.splits prod.splits)
  from find_best_match_error [OF this] show ?thesis by simp
qed

lemma plan_loop_Inl:
  "plan_loop C cs threshold min_gap segs st = Inl e \<Longrightarrow> e = TypeError \<and> threshold \<le> - 1"
proof (induction segs arbitrary: st)
  case Nil
  then show ?case by simp
next
  case (Cons seg segs)
  show ?case
  proof (cases "plan_step C cs threshold min_gap st seg")
    case (Inl e')
    with Cons.prems have "e' = e" by simp
    with plan_step_Inl [OF Inl] show ?thesis by simp
  next
    case (Inr st')
    with Cons.prems have "plan_loop C cs threshold min_gap segs st' = Inl e" by simp
    then show ?thesis by (rule Cons.IH)
  qed
qed

lemma plan_loop_invariant:
  assumes "plan_loop C cs threshold min_gap segs st = Inr st'"
    and "P st"
    and "\<And>s seg s'. P s \<Longrightarrow> seg \<in> set segs \<Longrightarrow>
           plan_step C cs threshold min_gap s seg = Inr s' \<Longrightarrow> P s'"
  shows "P st'"
  using assms
proof (induction segs arbitrary: st)
  case Nil
  then show ?case by simp
next
  case (Cons seg segs)
  from Cons.prems(1) obtain s1 where
    step: "plan_step C cs threshold min_gap st seg = Inr s1" and
    rest: "plan_loop C cs threshold min_gap segs s1 = Inr st'"
    by (auto split: sum.splits)
  have "P s1" using Cons.prems(2) step Cons.prems(3) [of st seg s1] by simp
  with rest show ?case
    using Cons.prems(3) by (intro Cons.IH [of s1]) auto
qed

lemma generate_edit_plan_Inl:
  "generate_edit_plan C segs cs threshold min_gap = Inl e \<Longrightarrow> e = TypeError \<and> threshold \<le> - 1"
  by (auto simp: generate_edit_plan_def split: sum.splits dest: plan_loop_Inl)

lemma generate_edit_plan_returns:
  "- 1 < threshold \<Longrightarrow> \<exists>e. generate_edit_plan C segs cs threshold min_gap = Inr e"
proof (cases "generate_edit_plan C segs cs threshold min_gap")
  case (Inl e)
  assume "- 1 < threshold"
  with generate_edit_plan_Inl [OF Inl] show ?thesis by simp
next
  case (Inr e)
  then show ?thesis by blast
qed

lemma generate_edit_plan_Inr:
  assumes "generate_edit_plan C segs cs threshold min_gap = Inr e"
  shows "\<exists>st. plan_loop C cs threshold min_gap segs \<lparr>st_edits = [], last_edit_time = - min_gap\<rparr> = Inr st \<and>
           edits e = Some (st_edits st) \<and>
           metadata e = Some \<lparr>total_segments = length segs, total_broll_clips = length cs,
                              edits_applied = length (st_edits st),
                              similarity_threshold = threshold, min_gap_seconds = min_gap\<rparr>"
  using assms by (auto simp: generate_edit_plan_def split: sum.splits)

lemma ends_before_starts_before:
  "ends_before e1 e2 \<Longrightarrow> duration e1 = Some d \<Longrightarrow> 0 \<le> d \<Longrightarrow> starts_before e1 e2"
  by (auto simp: ends_before_def starts_before_def split: option.splits)

lemma plan_step_edits:
  assumes "plan_step C cs threshold min_gap st seg = Inr st'"
    and "ed \<in> set (st_edits st')"
  shows "ed \<in> set (st_edits st) \<or>
         (\<exists>c sim r. find_best_match C (seg_text seg) cs threshold = Inr (Some c, sim, r) \<and>
            2 \<le> min ((seg_end seg - seg_start seg) * 0.8) (seg_end seg - seg_start seg) \<and>
            ed = \<lparr>start_time = Some (seg_start seg),
                  duration = Some (py_round (min ((seg_end seg - seg_start seg) * 0.8)
                                                 (seg_end seg - seg_start seg)) 2),
                  b_roll_clip = Some (clip_name c),
                  reason = Some r,
                  transcript_text = Some (take 100 (seg_text seg)),
                  similarity_score = Some (py_round sim 3)\<rparr>)"
  using plan_step_Inr [OF assms(1)] assms(2) by auto

lemma plan_loop_edits:
  assumes run: "plan_loop C cs threshold min_gap segs \<lparr>st_edits = [], last_edit_time = t0\<rparr> = Inr st"
    and ed: "ed \<in> set (st_edits st)"
  shows "\<exists>seg \<in> set segs. \<exists>c sim r.
            find_best_match C (seg_text seg) cs threshold = Inr (Some c, sim, r) \<and>
            2 \<le> min ((seg_end seg - seg_start seg) * 0.8) (seg_end seg - seg_start seg) \<and>
            ed = \<lparr>start_time = Some (seg_start seg),
                  duration = Some (py_round (min ((seg_end seg - seg_start seg) * 0.8)
                                                 (seg_end seg - seg_start seg)) 2),
                  b_roll_clip = Some (clip_name c),
                  reason = Some r,
                  transcript_text = Some (take 100 (seg_text seg)),
                  similarity_score = Some (py_round sim 3)\<rparr>"
proof -
  let ?made = "\<lambda>ed. \<exists>seg \<in> set segs. \<exists>c sim r.
            find_best_match C (seg_text seg) cs threshold = Inr (Some c, sim, r) \<and>
            2 \<le> min ((seg_end seg - seg_start seg) * 0.8) (seg_end seg - seg_start seg) \<and>
            ed = \<lparr>start_time = Some (seg_start seg),
                  duration = Some (py_round (min ((seg_end seg - seg_start seg) * 0.8)
                                                 (seg_end seg - seg_start seg)) 2),
                  b_roll_clip = Some (clip_name c),
                  reason = Some r,
                  transcript_text = Some (take 100 (seg_text seg)),
                  similarity_score = Some (py_round sim 3)\<rparr>"
  let ?P = "\<lambda>st. \<forall>ed \<in> set (st_edits st). ?made ed"
  have "?P st"
  proof (rule plan_loop_invariant [OF run, where P = ?P])
    show "?P \<lparr>st_edits = [], last_edit_time = t0\<rparr>" by simp
  next
    fix s seg s'
    assume P: "?P s" and seg: "seg \<in> set segs"
      and step: "plan_step C cs threshold min_gap s seg = Inr s'"
    show "?P s'"
    proof
      fix ed assume "ed \<in> set (st_edits s')"
      from plan_step_edits [OF step this] show "?made ed"
      proof
        assume "ed \<in> set (st_edits s)"
        with P show ?thesis by blast
      next
        assume "\<exists>c sim r. find_best_match C (seg_text seg) cs threshold = Inr (Some c, sim, r) \<and>
            2 \<le> min ((seg_end seg - seg_start seg) * 0.8) (seg_end seg - seg_start seg) \<and>
            ed = \<lparr>start_time = Some (seg_start seg),
                  duration = Some (py_round (min ((seg_end seg - seg_start seg) * 0.8)
                                                 (seg_end seg - seg_start seg)) 2),
                  b_roll_clip = Some (clip_name c),
                  reason = Some r,
                  transcript_text = Some (take 100 (seg_text seg)),
                  similarity_score = Some (py_round sim 3)\<rparr>"
        with seg show ?thesis by blast
      qed
    qed
  qed
  with ed show ?thesis by blast
qed


lemma py_round_8: "py_round 8 2 = 8"
  by (simp add: py_round_def round_half_even_def)





section \<open>The planner in double arithmetic: no overlap\<close>

subsection \<open>The rounding operator\<close>

lemma round_half_even_error: "\<bar>of_int (round_half_even t) - t\<bar> \<le> 1 / 2"
  using round_half_even_upper [of t] round_half_even_lower [of t] by linarith

lemma double_round_rel_error: "\<bar>double_round x - x\<bar> \<le> \<bar>x\<bar> / 2 ^ 53"
proof (cases "x = 0")
  case True
  then show ?thesis by (simp add: double_round_def)
next
  case False
  define e :: int where "e = \<lfloor>log 2 \<bar>x\<bar>\<rfloor>"
  define q :: real where "q = 2 powr (of_int e - 52)"
  have q_pos: "0 < q" by (simp add: q_def)
  have val: "double_round x = of_int (round_half_even (x / q)) * q"
    using False by (simp add: double_round_def Let_def q_def e_def)
  have "of_int e \<le> log 2 \<bar>x\<bar>" by (simp add: e_def)
  then have "2 powr of_int e \<le> 2 powr log 2 \<bar>x\<bar>" by simp
  also have "\<dots> = \<bar>x\<bar>" using False by simp
  finally have low: "2 powr of_int e \<le> \<bar>x\<bar>" .
  have q_eq: "q = 2 powr of_int e / 2 ^ 52"
    by (simp add: q_def powr_diff)
  have "double_round x - x = (of_int (round_half_even (x / q)) - x / q) * q"
    using q_pos by (simp add: val algebra_simps)
  then have "\<bar>double_round x - x\<bar> = \<bar>of_int (round_half_even (x / q)) - x / q\<bar> * q"
    using q_pos by (simp add: abs_mult)
  also have "\<dots> \<le> (1 / 2) * q"
    using round_half_even_error [of "x / q"] q_pos by (intro mult_right_mono) simp_all
  also have "\<dots> = 2 powr of_int e / 2 ^ 53" by (simp add: q_eq)
  also have "\<dots> \<le> \<bar>x\<bar> / 2 ^ 53" using low by (intro divide_right_mono) simp_all
  finally show ?thesis .
qed

lemma rounds_like_double_double_round: "rounds_like_double double_round"
  unfolding rounds_like_double_def by (intro allI double_round_rel_error)

lemma rounds_like_double_exact: "rounds_like_double (\<lambda>x. x)"
  by (simp add: rounds_like_double_def)

lemma rounded_error: "rounds_like_double rnd \<Longrightarrow> \<bar>rnd x - x\<bar> \<le> \<bar>x\<bar> / 2 ^ 53"
  unfolding rounds_like_double_def by blast

lemma rounded_upper:
  assumes "rounds_like_double rnd"
  shows "rnd x \<le> x + \<bar>x\<bar> / 9007199254740992"
proof -
  from rounded_error [OF assms, of x] have "\<bar>rnd x - x\<bar> \<le> \<bar>x\<bar> / 9007199254740992" by simp
  then show ?thesis by linarith
qed

lemma rounded_lower:
  assumes "rounds_like_double rnd"
  shows "x - \<bar>x\<bar> / 9007199254740992 \<le> rnd x"
proof -
  from rounded_error [OF assms, of x] have "\<bar>rnd x - x\<bar> \<le> \<bar>x\<bar> / 9007199254740992" by simp
  then show ?thesis by linarith
qed

lemma rounded_nonneg_upper:
  assumes "rounds_like_double rnd" and "0 \<le> x"
  shows "rnd x \<le> x + x / 9007199254740992"
  using rounded_upper [OF assms(1), of x] assms(2) by simp

lemma rounded_nonneg_lower:
  assumes "rounds_like_double rnd" and "0 \<le> x"
  shows "x - x / 9007199254740992 \<le> rnd x"
  using rounded_lower [OF assms(1), of x] assms(2) by simp

lemma rounded_bounded_upper:
  assumes "rounds_like_double rnd" and "\<bar>x\<bar> \<le> B"
  shows "rnd x \<le> x + B / 9007199254740992"
proof -
  from assms(2) have "\<bar>x\<bar> / 9007199254740992 \<le> B / 9007199254740992" by simp
  with rounded_upper [OF assms(1), of x] show ?thesis by linarith
qed

lemma rounded_bounded_lower:
  assumes "rounds_like_double rnd" and "\<bar>x\<bar> \<le> B"
  shows "x - B / 9007199254740992 \<le> rnd x"
proof -
  from assms(2) have "\<bar>x\<bar> / 9007199254740992 \<le> B / 9007199254740992" by simp
  with rounded_lower [OF assms(1), of x] show ?thesis by linarith
qed

subsection \<open>The rounded planner\<close>

lemma plan_step_fp_Inr:
  assumes "plan_step_fp rnd C cs threshold min_gap st seg = Inr st'"
  shows "st' = st \<or>
         (\<exists>(c :: clip) sim r.
            \<not> rnd (seg_start seg - last_edit_time st) < min_gap \<and>
            2 \<le> min (rnd (rnd (seg_end seg - seg_start seg) * rnd (8 / 10)))
                     (rnd (seg_end seg - seg_start seg)) \<and>
            st' = \<lparr>st_edits = st_edits st @
                     [\<lparr>start_time = Some (seg_start seg),
                       duration = Some (rnd (py_round
                         (min (rnd (rnd (seg_end seg - seg_start seg) * rnd (8 / 10)))
                              (rnd (seg_end seg - seg_start seg))) 2)),
                       b_roll_clip = Some (clip_name c),
                       reason = Some r,
                       transcript_text = Some (take 100 (seg_text seg)),
                       similarity_score = Some (rnd (py_round sim 3))\<rparr>],
                   last_edit_time = rnd (seg_start seg +
                     min (rnd (rnd (seg_end seg - seg_start seg) * rnd (8 / 10)))
                         (rnd (seg_end seg - seg_start seg)))\<rparr>)"
proof -
  define b where
    "b = min (rnd (rnd (seg_end seg - seg_start seg) * rnd (8 / 10)))
             (rnd (seg_end seg - seg_start seg))"
  have unfolded: "plan_step_fp rnd C cs threshold min_gap st seg =
     (if rnd (seg_start seg - last_edit_time st) < min_gap then Inr st
      else
        (case find_best_match C (seg_text seg) cs threshold of
           Inl e \<Rightarrow> Inl e
         | Inr (best_clip, similarity, rsn) \<Rightarrow>
             (case best_clip of
                None \<Rightarrow> Inr st
              | Some c \<Rightarrow>
                  if b < 2 then Inr st
                  else
                    Inr \<lparr>st_edits = st_edits st @
                           [\<lparr>start_time = Some (seg_start seg),
                             duration = Some (rnd (py_round b 2)),
                             b_roll_clip = Some (clip_name c),
                             reason = Some rsn,
                             transcript_text = Some (take 100 (seg_text seg)),
                             similarity_score = Some (rnd (py_round similarity 3))\<rparr>],
                         last_edit_time = rnd (seg_start seg + b)\<rparr>)))"
    unfolding plan_step_fp_def Let_def b_def by (rule refl)
  show ?thesis
  proof (cases "rnd (seg_start seg - last_edit_time st) < min_gap")
    case True
    with assms unfolded show ?thesis by simp
  next
    case gate: False
    show ?thesis
    proof (cases "find_best_match C (seg_text seg) cs threshold")
      case (Inl e)
      with assms unfolded gate show ?thesis by simp
    next
      case (Inr res)
      obtain best_clip sim r where res: "res = (best_clip, sim, r)" by (cases res)
      show ?thesis
      proof (cases best_clip)
        case None
        with assms unfolded gate Inr res show ?thesis by simp
      next
        case (Some c)
        show ?thesis
        proof (cases "b < 2")
          case True
          with assms unfolded gate Inr res Some show ?thesis by simp
        next
          case False
          with assms unfolded gate Inr res Some
          have "st' = \<lparr>st_edits = st_edits st @
                           [\<lparr>start_time = Some (seg_start seg),
                             duration = Some (rnd (py_round b 2)),
                             b_roll_clip = Some (clip_name c),
                             reason = Some r,
                             transcript_text = Some (take 100 (seg_text seg)),
                             similarity_score = Some (rnd (py_round sim 3))\<rparr>],
                         last_edit_time = rnd (seg_start seg + b)\<rparr>"
            by simp
          with gate False show ?thesis
            unfolding b_def by (intro disjI2 exI [of _ c] exI [of _ sim] exI [of _ r]) (simp add: not_less)
        qed
      qed
    qed
  qed
qed

lemma plan_step_fp_Inl:
  assumes "plan_step_fp rnd C cs threshold min_gap st seg = Inl e"
  shows "e = TypeError \<and> threshold \<le> - 1"
proof -
  from assms have "find_best_match C (seg_text seg) cs threshold = Inl e"
    by (auto simp: plan_step_fp_def Let_def split: if_splits sum.splits option.splits prod.splits)
  from find_best_match_error [OF this] show ?thesis by simp
qed

lemma plan_loop_fp_Inl:
  "plan_loop_fp rnd C cs threshold min_gap segs st = Inl e \<Longrightarrow> e = TypeError \<and> threshold \<le> - 1"
proof (induction segs arbitrary: st)
  case Nil
  then show ?case by simp
next
  case (Cons seg segs)
  show ?case
  proof (cases "plan_step_fp rnd C cs threshold min_gap st seg")
    case (Inl e')
    with Cons.prems have "e' = e" by simp
    with plan_step_fp_Inl [OF Inl] show ?thesis by simp
  next
    case (Inr st')
    with Cons.prems have "plan_loop_fp rnd C cs threshold min_gap segs st' = Inl e" by simp
    then show ?thesis by (rule Cons.IH)
  qed
qed

lemma plan_loop_fp_invariant:
  assumes "plan_loop_fp rnd C cs threshold min_gap segs st = Inr st'"
    and "P st"
    and "\<And>s seg s'. P s \<Longrightarrow> seg \<in> set segs \<Longrightarrow>
           plan_step_fp rnd C cs threshold min_gap s seg = Inr s' \<Longrightarrow> P s'"
  shows "P st'"
  using assms
proof (induction segs arbitrary: st)
  case Nil
  then show ?case by simp
next
  case (Cons seg segs)
  from Cons.prems(1) obtain s1 where
    step: "plan_step_fp rnd C cs threshold min_gap st seg = Inr s1" and
    rest: "plan_loop_fp rnd C cs threshold min_gap segs s1 = Inr st'"
    by (auto split: sum.splits)
  have "P s1" using Cons.prems(2) step Cons.prems(3) [of st seg s1] by simp
  with rest show ?case
    using Cons.prems(3) by (intro Cons.IH [of s1]) auto
qed

lemma generate_edit_plan_fp_returns:
  "- 1 < threshold \<Longrightarrow> \<exists>e. generate_edit_plan_fp rnd C segs cs threshold min_gap = Inr e"
proof (cases "plan_loop_fp rnd C cs threshold min_gap segs \<lparr>st_edits = [], last_edit_time = - min_gap\<rparr>")
  case (Inl e)
  assume "- 1 < threshold"
  with plan_loop_fp_Inl [OF Inl] show ?thesis by simp
next
  case (Inr st)
  then show ?thesis by (simp add: generate_edit_plan_fp_def)
qed

lemma generate_edit_plan_fp_Inr:
  assumes "generate_edit_plan_fp rnd C segs cs threshold min_gap = Inr e"
  shows "\<exists>st. plan_loop_fp rnd C cs threshold min_gap segs
                 \<lparr>st_edits = [], last_edit_time = - min_gap\<rparr> = Inr st \<and>
           edits e = Some (st_edits st) \<and>
           metadata e = Some \<lparr>total_segments = length segs, total_broll_clips = length cs,
                              edits_applied = length (st_edits st),
                              similarity_threshold = threshold, min_gap_seconds = min_gap\<rparr>"
  using assms by (auto simp: generate_edit_plan_fp_def split: sum.splits)

text \<open>
  The arithmetic of one commit. A segment that passes the gap gate starts at least
  \<open>1 / 200 + T / 2 ^ 50\<close> after the previous end, and that slack covers the rounding of the
  stored duration to a hundredth of a second and the rounding errors of the sums.
\<close>

lemma gap_covers_slack:
  assumes R: "rounds_like_double rnd"
    and M: "1 \<le> M"
    and g: "1 / 200 + M / 2 ^ 49 \<le> g"
    and gate: "\<not> rnd x < g"
  shows "1 / 200 + M / 2 ^ 50 \<le> x"
proof -
  from g have g': "1 / 200 + M / 562949953421312 \<le> g" by simp
  from M g' have gpos: "0 < g" by linarith
  have xpos: "0 < x"
  proof (rule ccontr)
    assume "\<not> 0 < x"
    then have "\<bar>x\<bar> = - x" by simp
    with rounded_upper [OF R, of x] have "rnd x \<le> x - x / 9007199254740992" by simp
    with \<open>\<not> 0 < x\<close> have "rnd x \<le> 0" by linarith
    with gate gpos show False by linarith
  qed
  then have "0 \<le> x" by simp
  with R have "rnd x \<le> x + x / 9007199254740992" by (rule rounded_nonneg_upper)
  with gate have "g \<le> x + x / 9007199254740992" by linarith
  with g' M have "1 / 200 + M / 1125899906842624 \<le> x" by linarith
  then show ?thesis by simp
qed

lemma no_overlap_step_fp:
  assumes R: "rounds_like_double rnd"
    and M: "1 \<le> M"
    and g: "1 / 200 + M / 2 ^ 49 \<le> g"
    and bs: "\<bar>seg_start seg\<bar> \<le> M"
    and be: "\<bar>seg_end seg\<bar> \<le> M"
    and inv: "sorted_wrt ends_before (st_edits st) \<and>
              (\<forall>e \<in> set (st_edits st). \<exists>s d. start_time e = Some s \<and> duration e = Some d \<and>
                   0 \<le> d \<and> s + d \<le> last_edit_time st + (1 / 200 + M / 2 ^ 50))"
    and step: "plan_step_fp rnd C cs threshold g st seg = Inr st'"
  shows "sorted_wrt ends_before (st_edits st') \<and>
         (\<forall>e \<in> set (st_edits st'). \<exists>s d. start_time e = Some s \<and> duration e = Some d \<and>
              0 \<le> d \<and> s + d \<le> last_edit_time st' + (1 / 200 + M / 2 ^ 50))"
proof -
  define k where "k = 1 / 200 + M / 2 ^ 50"
  define dur where "dur = rnd (seg_end seg - seg_start seg)"
  define b where "b = min (rnd (dur * rnd (8 / 10))) dur"
  define p where "p = py_round b 2"
  from plan_step_fp_Inr [OF step] show ?thesis
  proof (elim disjE exE conjE)
    assume "st' = st"
    with inv show ?thesis by simp
  next
    fix c :: clip and sim r
    assume gate: "\<not> rnd (seg_start seg - last_edit_time st) < g"
      and long: "2 \<le> min (rnd (rnd (seg_end seg - seg_start seg) * rnd (8 / 10)))
                          (rnd (seg_end seg - seg_start seg))"
      and st': "st' = \<lparr>st_edits = st_edits st @
                     [\<lparr>start_time = Some (seg_start seg),
                       duration = Some (rnd (py_round
                         (min (rnd (rnd (seg_end seg - seg_start seg) * rnd (8 / 10)))
                              (rnd (seg_end seg - seg_start seg))) 2)),
                       b_roll_clip = Some (clip_name c),
                       reason = Some r,
                       transcript_text = Some (take 100 (seg_text seg)),
                       similarity_score = Some (rnd (py_round sim 3))\<rparr>],
                   last_edit_time = rnd (seg_start seg +
                     min (rnd (rnd (seg_end seg - seg_start seg) * rnd (8 / 10)))
                         (rnd (seg_end seg - seg_start seg)))\<rparr>"
    let ?n = "\<lparr>start_time = Some (seg_start seg), duration = Some (rnd p),
               b_roll_clip = Some (clip_name c), reason = Some r,
               transcript_text = Some (take 100 (seg_text seg)),
               similarity_score = Some (rnd (py_round sim 3))\<rparr>"
    from long have b2: "2 \<le> b" by (simp only: b_def dur_def)
    from st' have edits': "st_edits st' = st_edits st @ [?n]"
      and last': "last_edit_time st' = rnd (seg_start seg + b)"
      by (simp_all only: p_def b_def dur_def plan_state.simps)
    have k_num: "k = 1 / 200 + M / 1125899906842624" by (simp add: k_def)
    have slack: "k \<le> seg_start seg - last_edit_time st"
      unfolding k_def using R M g gate by (rule gap_covers_slack)
    from bs be have diff: "\<bar>seg_end seg - seg_start seg\<bar> \<le> 2 * M" by linarith
    have "dur \<le> (seg_end seg - seg_start seg) + 2 * M / 9007199254740992"
      unfolding dur_def using R diff by (rule rounded_bounded_upper)
    moreover from diff have "seg_end seg - seg_start seg \<le> 2 * M" by linarith
    ultimately have dur3: "dur \<le> 3 * M" using M by linarith
    have "b \<le> dur" by (simp add: b_def)
    with dur3 have b3: "b \<le> 3 * M" by simp
    have p2: "2 \<le> p" unfolding p_def using b2 by (rule py_round_ge_2)
    have pu: "p \<le> b + 1 / 200" unfolding p_def by (rule py_round_upper)
    from p2 have p0: "0 \<le> p" by simp
    from rounded_nonneg_lower [OF R p0] p2 have d0: "0 \<le> rnd p" by linarith
    have du: "rnd p \<le> p + p / 9007199254740992" using R p0 by (rule rounded_nonneg_upper)
    have "\<bar>seg_start seg + b\<bar> \<le> 4 * M" using bs b2 b3 by linarith
    with R have ll: "seg_start seg + b - 4 * M / 9007199254740992 \<le> rnd (seg_start seg + b)"
      by (rule rounded_bounded_lower)
    have old: "\<exists>s d. start_time e = Some s \<and> duration e = Some d \<and> 0 \<le> d \<and>
                 s + d \<le> seg_start seg" if "e \<in> set (st_edits st)" for e
    proof -
      from inv that obtain s d where "start_time e = Some s" "duration e = Some d" "0 \<le> d"
        "s + d \<le> last_edit_time st + k" unfolding k_def by blast
      with slack show ?thesis by auto
    qed
    have before: "\<forall>e \<in> set (st_edits st). ends_before e ?n"
    proof
      fix e assume "e \<in> set (st_edits st)"
      from old [OF this] show "ends_before e ?n"
        by (auto simp: ends_before_def)
    qed
    have bound_old: "\<forall>e \<in> set (st_edits st). \<exists>s d. start_time e = Some s \<and> duration e = Some d \<and>
                 0 \<le> d \<and> s + d \<le> rnd (seg_start seg + b) + k"
    proof
      fix e assume "e \<in> set (st_edits st)"
      from old [OF this] obtain s d where "start_time e = Some s" "duration e = Some d" "0 \<le> d"
        "s + d \<le> seg_start seg" by blast
      moreover have "seg_start seg \<le> rnd (seg_start seg + b) + k"
        using ll b2 M unfolding k_num by linarith
      ultimately show "\<exists>s d. start_time e = Some s \<and> duration e = Some d \<and>
                 0 \<le> d \<and> s + d \<le> rnd (seg_start seg + b) + k" by auto
    qed
    have "seg_start seg + rnd p \<le> rnd (seg_start seg + b) + k"
      using du pu ll b3 M unfolding k_num by linarith
    with d0 have bound_new: "\<exists>s d. start_time ?n = Some s \<and> duration ?n = Some d \<and>
                 0 \<le> d \<and> s + d \<le> rnd (seg_start seg + b) + k"
      by simp
    from inv before have "sorted_wrt ends_before (st_edits st')"
      by (simp add: edits' sorted_wrt_append)
    moreover from bound_old bound_new
    have "\<forall>e \<in> set (st_edits st'). \<exists>s d. start_time e = Some s \<and> duration e = Some d \<and>
              0 \<le> d \<and> s + d \<le> last_edit_time st' + k"
      unfolding edits' last' by auto
    ultimately show ?thesis unfolding k_def by simp
  qed
qed

lemma plan_loop_fp_no_overlap:
  assumes R: "rounds_like_double rnd"
    and M: "1 \<le> M"
    and bounds: "\<forall>seg \<in> set segs. \<bar>seg_start seg\<bar> \<le> M \<and> \<bar>seg_end seg\<bar> \<le> M"
    and g: "1 / 200 + M / 2 ^ 49 \<le> g"
    and run: "plan_loop_fp rnd C cs threshold g segs \<lparr>st_edits = [], last_edit_time = - g\<rparr> = Inr st"
  shows "sorted_wrt ends_before (st_edits st) \<and>
         (\<forall>e \<in> set (st_edits st). \<exists>s d. start_time e = Some s \<and> duration e = Some d \<and> 0 \<le> d)"
proof -
  let ?P = "\<lambda>st. sorted_wrt ends_before (st_edits st) \<and>
              (\<forall>e \<in> set (st_edits st). \<exists>s d. start_time e = Some s \<and> duration e = Some d \<and>
                   0 \<le> d \<and> s + d \<le> last_edit_time st + (1 / 200 + M / 2 ^ 50))"
  have "?P st"
  proof (rule plan_loop_fp_invariant [OF run, where P = ?P])
    show "?P \<lparr>st_edits = [], last_edit_time = - g\<rparr>" by simp
  next
    fix s seg s'
    assume P: "?P s" and seg: "seg \<in> set segs"
      and step: "plan_step_fp rnd C cs threshold g s seg = Inr s'"
    from bounds seg have "\<bar>seg_start seg\<bar> \<le> M" and "\<bar>seg_end seg\<bar> \<le> M" by blast+
    with R M g show "?P s'" using P step by (rule no_overlap_step_fp)
  qed
  then show ?thesis by blast
qed

text \<open>
  C1, amended. The arithmetic is that of doubles: every operation is rounded by an operator
  of relative error at most \<open>1 / 2 ^ 53\<close>. For every planning run whose segment start and
  end times lie within \<open>T\<close> seconds of 0 (\<open>T \<ge> 1\<close>) and whose minimum gap is at
  least \<open>1 / 200 + T / 2 ^ 49\<close> seconds, on any clip catalog and threshold: the run returns
  an EDL whenever the threshold is above \<open>- 1\<close>, and every EDL a run returns has its
  edits ordered by \<open>start_time\<close>, each edit starting no earlier than
  \<open>start_time + duration\<close> of the previous one, and \<open>edits_applied\<close> equal to the
  number of edits.
\<close>

theorem generate_edit_plan_fp_no_overlap:
  assumes "rounds_like_double rnd"
    and "1 \<le> T"
    and "\<forall>seg \<in> set segs. \<bar>seg_start seg\<bar> \<le> T \<and> \<bar>seg_end seg\<bar> \<le> T"
    and "1 / 200 + T / 2 ^ 49 \<le> min_gap"
  shows "(- 1 < threshold \<longrightarrow>
            (\<exists>e. generate_edit_plan_fp rnd C segs cs threshold min_gap = Inr e)) \<and>
         (\<forall>e. generate_edit_plan_fp rnd C segs cs threshold min_gap = Inr e \<longrightarrow>
            (\<exists>es m. edits e = Some es \<and> metadata e = Some m \<and>
               sorted_wrt starts_before es \<and>
               (\<forall>i. Suc i < length es \<longrightarrow> ends_before (es ! i) (es ! Suc i)) \<and>
               edits_applied m = length es))"
proof (intro conjI allI impI)
  assume "- 1 < threshold"
  then show "\<exists>e. generate_edit_plan_fp rnd C segs cs threshold min_gap = Inr e"
    by (rule generate_edit_plan_fp_returns)
next
  fix e
  assume "generate_edit_plan_fp rnd C segs cs threshold min_gap = Inr e"
  from generate_edit_plan_fp_Inr [OF this] obtain st where
    run: "plan_loop_fp rnd C cs threshold min_gap segs
            \<lparr>st_edits = [], last_edit_time = - min_gap\<rparr> = Inr st"
    and es: "edits e = Some (st_edits st)"
    and m: "metadata e = Some \<lparr>total_segments = length segs, total_broll_clips = length cs,
                              edits_applied = length (st_edits st),
                              similarity_threshold = threshold, min_gap_seconds = min_gap\<rparr>"
    by blast
  from plan_loop_fp_no_overlap [OF assms run]
  have sorted: "sorted_wrt ends_before (st_edits st)"
    and dur: "\<forall>e \<in> set (st_edits st). \<exists>s d. start_time e = Some s \<and> duration e = Some d \<and> 0 \<le> d"
    by simp_all
  have "sorted_wrt starts_before (st_edits st)"
  proof (rule sorted_wrt_mono_rel [OF _ sorted])
    fix x y
    assume "x \<in> set (st_edits st)" and "ends_before x y"
    with dur show "starts_before x y"
      by (blast intro: ends_before_starts_before)
  qed
  moreover have "\<forall>i. Suc i < length (st_edits st) \<longrightarrow>
      ends_before (st_edits st ! i) (st_edits st ! Suc i)"
    using sorted by (simp add: sorted_wrt_nth_less)
  ultimately show "\<exists>es m. edits e = Some es \<and> metadata e = Some m \<and>
               sorted_wrt starts_before es \<and>
               (\<forall>i. Suc i < length es \<longrightarrow> ends_before (es ! i) (es ! Suc i)) \<and>
               edits_applied m = length es"
    using es m by simp
qed

subsection \<open>Evaluating the rounding on concrete numbers\<close>

lemma double_round_binade:
  assumes "(2 :: real) powr of_int e \<le> \<bar>x\<bar>" and "\<bar>x\<bar> < 2 powr (of_int e + 1)"
  shows "double_round x =
           of_int (round_half_even (x / 2 powr (of_int e - 52))) * 2 powr (of_int e - 52)"
proof -
  have "0 < (2 :: real) powr of_int e" by simp
  with assms(1) have pos: "0 < \<bar>x\<bar>" by linarith
  then have nz: "x \<noteq> 0" by simp
  from assms(1) pos have "of_int e \<le> log 2 \<bar>x\<bar>" by (simp add: le_log_iff)
  moreover from assms(2) pos have "log 2 \<bar>x\<bar> < of_int e + 1" by (simp add: log_less_iff)
  ultimately have "\<lfloor>log 2 \<bar>x\<bar>\<rfloor> = e" by (simp add: floor_eq_iff)
  with nz show ?thesis by (simp add: double_round_def Let_def)
qed

lemma double_round_large:
  fixes n :: nat
  assumes "2 ^ n \<le> \<bar>x\<bar>" and "\<bar>x\<bar> < 2 * 2 ^ n"
  shows "double_round x = of_int (round_half_even (x * 2 ^ 52 / 2 ^ n)) * (2 ^ n / 2 ^ 52)"
proof -
  have q: "(2 :: real) powr (real n - 52) = 2 ^ n / 2 ^ 52"
    by (simp add: powr_diff powr_realpow)
  have "double_round x =
      of_int (round_half_even (x / 2 powr (real n - 52))) * 2 powr (real n - 52)"
    using double_round_binade [of "int n" x] assms by (simp add: powr_realpow powr_add)
  then have "double_round x = of_int (round_half_even (x / (2 ^ n / 2 ^ 52))) * (2 ^ n / 2 ^ 52)"
    by (simp only: q)
  then show ?thesis by simp
qed

lemma double_round_small:
  fixes n :: nat
  assumes "1 / 2 ^ n \<le> \<bar>x\<bar>" and "\<bar>x\<bar> < 2 / 2 ^ n"
  shows "double_round x = of_int (round_half_even (x * (2 ^ 52 * 2 ^ n))) / (2 ^ 52 * 2 ^ n)"
proof -
  have p: "(2 :: real) powr (- real n) = 1 / 2 ^ n"
    by (simp add: powr_minus powr_realpow inverse_eq_divide)
  have q: "(2 :: real) powr (- real n - 52) = 1 / (2 ^ 52 * 2 ^ n)"
    by (simp add: powr_diff p)
  have r: "(2 :: real) powr (1 - real n) = 2 / 2 ^ n"
    by (simp add: powr_diff powr_realpow)
  have "double_round x =
      of_int (round_half_even (x / 2 powr (- real n - 52))) * 2 powr (- real n - 52)"
    using double_round_binade [of "- int n" x] assms by (simp add: p r)
  then have "double_round x =
      of_int (round_half_even (x / (1 / (2 ^ 52 * 2 ^ n)))) * (1 / (2 ^ 52 * 2 ^ n))"
    by (simp only: q)
  then show ?thesis by simp
qed

lemma double_round_10: "double_round 10 = 10"
  using double_round_large [of 3 10] by (simp add: round_half_even_def Let_def)

lemma double_round_8: "double_round 8 = 8"
  using double_round_large [of 3 8] by (simp add: round_half_even_def Let_def)

lemma double_round_12: "double_round 12 = 12"
  using double_round_large [of 3 12] by (simp add: round_half_even_def Let_def)

lemma double_round_1: "double_round 1 = 1"
  using double_round_large [of 0 1] by (simp add: round_half_even_def Let_def)

lemma double_round_08: "double_round (8 / 10) = 7205759403792794 / 9007199254740992"
  using double_round_small [of 1 "8 / 10"] by (simp add: round_half_even_def Let_def)

lemma double_round_8c: "double_round (10 * (7205759403792794 / 9007199254740992)) = 8"
  using double_round_large [of 3 "10 * (7205759403792794 / 9007199254740992)"]
  by (simp add: round_half_even_def Let_def)

lemma double_round_0: "double_round 0 = 0"
  by (simp add: double_round_def)

lemma double_round_nonneg: "0 \<le> x \<Longrightarrow> 0 \<le> double_round x"
  using rounded_nonneg_lower [OF rounds_like_double_double_round, of x] by linarith

lemma double_round_not_neg: "0 \<le> x \<Longrightarrow> \<not> double_round x < 0"
  using double_round_nonneg [of x] by simp

lemma py_round_1: "py_round 1 3 = 1"
  by (simp add: py_round_def round_half_even_def)

lemma unit_provider_match_any:
  "threshold \<le> 1 \<Longrightarrow>
   find_best_match unit_provider txt [\<lparr>clip_name = ''c'', description = ''d''\<rparr>] threshold =
     Inr (Some \<lparr>clip_name = ''c'', description = ''d''\<rparr>, 1, ''ok (Similarity: #)'')"
  by (simp add: find_best_match_def get_embedding_def unit_provider_def compute_similarity_def
      cosine_similarity_def normalize_row_def l2_norm_def generate_match_reason_def)

lemma double_round_45: "double_round (4 / 5) = 3602879701896397 / 4503599627370496"
  using double_round_08 by simp

lemma double_round_8d: "double_round (18014398509481985 / 2251799813685248) = 8"
  using double_round_8c by simp

lemma double_round_a: "double_round (1281 / 128) = 1281 / 128"
  using double_round_large [of 3 "1281 / 128"] by (simp add: round_half_even_def Let_def)

lemma double_round_b:
  "double_round (4615288898129284557 / 576460752303423488) =
     4507118064579379 / 562949953421312"
  using double_round_large [of 3 "4615288898129284557 / 576460752303423488"]
  by (simp add: round_half_even_def Let_def)

lemma py_round_b: "py_round (4507118064579379 / 562949953421312) 2 = 801 / 100"
  by (simp add: py_round_def round_half_even_def Let_def)

lemma double_round_c: "double_round (801 / 100) = 4509229126904709 / 562949953421312"
  using double_round_large [of 3 "801 / 100"] by (simp add: round_half_even_def Let_def)

lemma double_round_d:
  "double_round (4507118064579379 / 562949953421312) = 4507118064579379 / 562949953421312"
  using double_round_large [of 3 "4507118064579379 / 562949953421312"]
  by (simp add: round_half_even_def Let_def)

lemma double_round_e: "double_round (2049 / 128) = 2049 / 128"
  using double_round_large [of 4 "2049 / 128"] by (simp add: round_half_even_def Let_def)

lemmas double_round_values =
  double_round_0 double_round_1 double_round_8 double_round_10 double_round_12
  double_round_08 double_round_45 double_round_8c double_round_8d double_round_a double_round_b
  double_round_c double_round_d double_round_e double_round_not_neg
  py_round_1 py_round_8 py_round_b

text \<open>
  C1, as stated, for any minimum gap: with a minimum gap of 0 and doubles throughout, the
  segment from 0 to 10.0078125 gives an edit whose stored duration is the double nearest to
  8.01, while the gap is measured from the unrounded end near 8.00625; the segment starting
  at 8.0078125 is edited too, and it starts before the first edit ends.
\<close>

theorem generate_edit_plan_fp_overlap_counterexample:
  "generate_edit_plan_fp double_round unit_provider
     [\<lparr>seg_start = 0, seg_end = 1281 / 128, seg_text = ''a''\<rparr>,
      \<lparr>seg_start = 1025 / 128, seg_end = 2305 / 128, seg_text = ''b''\<rparr>]
     [\<lparr>clip_name = ''c'', description = ''d''\<rparr>] 0.4 0 =
   Inr \<lparr>metadata = Some \<lparr>total_segments = 2, total_broll_clips = 1, edits_applied = 2,
                          similarity_threshold = 0.4, min_gap_seconds = 0\<rparr>,
        edits = Some
          [\<lparr>start_time = Some 0, duration = Some (4509229126904709 / 562949953421312),
            b_roll_clip = Some ''c'', reason = Some ''ok (Similarity: #)'',
            transcript_text = Some ''a'', similarity_score = Some 1\<rparr>,
           \<lparr>start_time = Some (1025 / 128), duration = Some 8, b_roll_clip = Some ''c'',
            reason = Some ''ok (Similarity: #)'', transcript_text = Some ''b'',
            similarity_score = Some 1\<rparr>]\<rparr> \<and>
   \<not> ends_before
       \<lparr>start_time = Some 0, duration = Some (4509229126904709 / 562949953421312),
        b_roll_clip = Some ''c'', reason = Some ''ok (Similarity: #)'',
        transcript_text = Some ''a'', similarity_score = Some 1\<rparr>
       \<lparr>start_time = Some (1025 / 128), duration = Some 8, b_roll_clip = Some ''c'',
        reason = Some ''ok (Similarity: #)'', transcript_text = Some ''b'',
        similarity_score = Some 1\<rparr>"
  by (simp add: generate_edit_plan_fp_def plan_step_fp_def unit_provider_match_any Let_def
      double_round_values ends_before_def)

theorem generate_edit_plan_fp_no_overlap_witness:
  "rounds_like_double double_round \<and> (1 :: real) \<le> 30 \<and>
   \<bar>0 :: real\<bar> \<le> 30 \<and> \<bar>10 :: real\<bar> \<le> 30 \<and> \<bar>20 :: real\<bar> \<le> 30 \<and> \<bar>30 :: real\<bar> \<le> 30 \<and>
   1 / 200 + 30 / 2 ^ 49 \<le> (8 :: real) \<and> - 1 < (0.4 :: real) \<and>
   (\<exists>e es m. generate_edit_plan_fp double_round unit_provider
        [\<lparr>seg_start = 0, seg_end = 10, seg_text = ''a''\<rparr>,
         \<lparr>seg_start = 20, seg_end = 30, seg_text = ''b''\<rparr>]
        [\<lparr>clip_name = ''c'', description = ''d''\<rparr>] 0.4 8 = Inr e \<and>
      edits e = Some es \<and> metadata e = Some m \<and>
      map start_time es = [Some 0, Some 20] \<and> map duration es = [Some 8, Some 8] \<and>
      sorted_wrt starts_before es \<and>
      (\<forall>i. Suc i < length es \<longrightarrow> ends_before (es ! i) (es ! Suc i)) \<and>
      edits_applied m = length es)"
proof -
  let ?segs = "[\<lparr>seg_start = 0, seg_end = 10, seg_text = ''a''\<rparr>,
                \<lparr>seg_start = 20, seg_end = 30, seg_text = ''b''\<rparr>]"
  let ?cs = "[\<lparr>clip_name = ''c'', description = ''d''\<rparr>]"
  have R: "rounds_like_double double_round" by (rule rounds_like_double_double_round)
  have T: "(1 :: real) \<le> 30" by simp
  have B: "\<forall>seg \<in> set ?segs. \<bar>seg_start seg\<bar> \<le> 30 \<and> \<bar>seg_end seg\<bar> \<le> 30" by simp
  have g: "1 / 200 + 30 / 2 ^ 49 \<le> (8 :: real)" by simp
  have t: "- 1 < (0.4 :: real)" by simp
  from generate_edit_plan_fp_no_overlap [OF R T B g, of "0.4" unit_provider ?cs] t
  obtain e where run: "generate_edit_plan_fp double_round unit_provider ?segs ?cs 0.4 8 = Inr e"
    and props: "\<exists>es m. edits e = Some es \<and> metadata e = Some m \<and>
               sorted_wrt starts_before es \<and>
               (\<forall>i. Suc i < length es \<longrightarrow> ends_before (es ! i) (es ! Suc i)) \<and>
               edits_applied m = length es"
    by blast
  from run have "\<exists>es. edits e = Some es \<and> map start_time es = [Some 0, Some 20] \<and>
      map duration es = [Some 8, Some 8]"
    by (auto simp: generate_edit_plan_fp_def plan_step_fp_def unit_provider_match_any Let_def
      double_round_values)
  with run props R T B g t show ?thesis by auto
qed

subsection \<open>A minimum gap of exactly 0.005 seconds\<close>

text \<open>
  The term \<open>T / 2 ^ 49\<close> of the bound cannot be dropped. With the doubles nearest to
  3.7, 16.04375, 13.58, 23.58 and a minimum gap that is the double nearest to 0.005, the
  second segment passes the gap gate, since the difference computed in doubles is not
  below the gap, and the two edits overlap by \<open>1 / 2 ^ 50\<close> seconds.
\<close>

lemma boundary_round_2: "double_round (37 / 10) = 4165829655317709 / 1125899906842624"
  using double_round_large [of 1 "37 / 10"]
  by (simp add: round_half_even_def Let_def)

lemma boundary_round_3: "double_round (2567 / 160) = 4515914157601587 / 281474976710656"
  using double_round_large [of 4 "2567 / 160"]
  by (simp add: round_half_even_def Let_def)

lemma boundary_round_4: "double_round (679 / 50) = 7644860367461417 / 562949953421312"
  using double_round_large [of 3 "679 / 50"]
  by (simp add: round_half_even_def Let_def)

lemma boundary_round_5: "double_round (1179 / 50) = 1659294987709317 / 70368744177664"
  using double_round_large [of 4 "1179 / 50"]
  by (simp add: round_half_even_def Let_def)

lemma boundary_round_6: "double_round (1 / 200) = 5764607523034235 / 1152921504606846976"
  using double_round_small [of 8 "1 / 200"]
  by (simp add: round_half_even_def Let_def)

lemma boundary_round_7: "double_round (13897826975088639 / 1125899906842624) = 395 / 32"
  using double_round_large [of 3 "13897826975088639 / 1125899906842624"]
  by (simp add: round_half_even_def Let_def)

lemma boundary_round_8: "double_round (4271574174568368251 / 1152921504606846976) = 2085729577425961 / 562949953421312"
  using double_round_large [of 1 "4271574174568368251 / 1152921504606846976"]
  by (simp add: round_half_even_def Let_def)

lemma boundary_round_9: "double_round (1423137482249076815 / 144115188075855872) = 79 / 8"
  using double_round_large [of 3 "1423137482249076815 / 144115188075855872"]
  by (simp add: round_half_even_def Let_def)

lemma boundary_round_10: "double_round (247 / 25) = 5561945539802563 / 562949953421312"
  using double_round_large [of 3 "247 / 25"]
  by (simp add: round_half_even_def Let_def)

lemma boundary_round_11: "double_round (15284091235388621 / 1125899906842624) = 3821022808847155 / 281474976710656"
  using double_round_large [of 3 "15284091235388621 / 1125899906842624"]
  by (simp add: round_half_even_def Let_def)

lemma boundary_round_12: "double_round (5629499534213119 / 562949953421312) = 5629499534213119 / 562949953421312"
  using double_round_large [of 3 "5629499534213119 / 562949953421312"]
  by (simp add: round_half_even_def Let_def)

lemma boundary_round_13: "double_round (2814749767107 / 562949953421312) = 2814749767107 / 562949953421312"
  using double_round_small [of 8 "2814749767107 / 562949953421312"]
  by (simp add: round_half_even_def Let_def)

lemma boundary_round_14: "double_round (20282409603651667946967456232243 / 2535301200456458802993406410752) = 9007199254740991 / 1125899906842624"
  using double_round_large [of 2 "20282409603651667946967456232243 / 2535301200456458802993406410752"]
  by (simp add: round_half_even_def Let_def)

lemma boundary_round_16: "double_round (24296919989663825 / 1125899906842624) = 1518557499353989 / 70368744177664"
  using double_round_large [of 4 "24296919989663825 / 1125899906842624"]
  by (simp add: round_half_even_def Let_def)

lemma boundary_py_round_0: "py_round (79 / 8) 2 = 247 / 25"
  by (simp add: py_round_def round_half_even_def Let_def)

lemma boundary_py_round_1: "py_round (9007199254740991 / 1125899906842624) 2 = 8"
  by (simp add: py_round_def round_half_even_def Let_def)

lemmas boundary_values =
  double_round_45 boundary_round_2 boundary_round_3 boundary_round_4 boundary_round_5 boundary_round_6 boundary_round_7 boundary_round_8 boundary_round_9 boundary_round_10 boundary_round_11 boundary_round_12 boundary_round_13 boundary_round_14 double_round_8 boundary_round_16 double_round_1
  boundary_py_round_0 boundary_py_round_1 py_round_1

lemma generate_edit_plan_fp_boundary_overlap:
  "generate_edit_plan_fp double_round unit_provider
     [\<lparr>seg_start = double_round 3.7, seg_end = double_round 16.04375, seg_text = ''a''\<rparr>,
      \<lparr>seg_start = double_round 13.58, seg_end = double_round 23.58, seg_text = ''b''\<rparr>]
     [\<lparr>clip_name = ''c'', description = ''d''\<rparr>] 0.4 (double_round 0.005) =
   Inr \<lparr>metadata = Some \<lparr>total_segments = 2, total_broll_clips = 1, edits_applied = 2,
                          similarity_threshold = 0.4, min_gap_seconds = double_round 0.005\<rparr>,
        edits = Some
          [\<lparr>start_time = Some (double_round 3.7), duration = Some (double_round 9.88),
            b_roll_clip = Some ''c'', reason = Some ''ok (Similarity: #)'',
            transcript_text = Some ''a'', similarity_score = Some 1\<rparr>,
           \<lparr>start_time = Some (double_round 13.58), duration = Some 8,
            b_roll_clip = Some ''c'', reason = Some ''ok (Similarity: #)'',
            transcript_text = Some ''b'', similarity_score = Some 1\<rparr>]\<rparr> \<and>
   double_round 13.58 < double_round 3.7 + double_round 9.88"
  by (simp add: generate_edit_plan_fp_def plan_step_fp_def unit_provider_match_any Let_def
      boundary_values)

text \<open>With no rounding the rounded planner is the planner of the sections above.\<close>

lemma plan_step_fp_exact: "plan_step_fp (\<lambda>x. x) = plan_step"
  by (intro ext) (simp add: plan_step_fp_def plan_step_def)

lemma plan_loop_fp_exact: "plan_loop_fp (\<lambda>x. x) C cs threshold g segs st = plan_loop C cs threshold g segs st"
  by (induction segs arbitrary: st) (simp_all add: plan_step_fp_exact split: sum.splits)

lemma generate_edit_plan_fp_exact: "generate_edit_plan_fp (\<lambda>x. x) = generate_edit_plan"
  by (intro ext) (simp add: generate_edit_plan_fp_def generate_edit_plan_def plan_loop_fp_exact)

section \<open>Properties of the validator\<close>

lemma validate_edits_total:
  "validate_edits idx es = Inr True \<or> (\<exists>err. validate_edits idx es = Inl err)"
  by (induction es arbitrary: idx) (auto split: option.splits)

lemma validate_edits_raises_iff:
  "(\<exists>err. validate_edits idx es = Inl err) \<longleftrightarrow> (\<exists>ed \<in> set es. spec_rejected ed)"
proof (induction es arbitrary: idx)
  case Nil
  show ?case by simp
next
  case (Cons a es)
  show ?case
  proof (cases "spec_rejected a")
    case True
    then have "\<exists>err. validate_edits idx (a # es) = Inl err"
      by (auto simp: spec_rejected_def split: option.splits)
    with True show ?thesis by simp
  next
    case False
    then have "validate_edits idx (a # es) = validate_edits (Suc idx) es"
      by (auto simp: spec_rejected_def split: option.splits)
    with False Cons.IH [of "Suc idx"] show ?thesis by simp
  qed
qed

lemma validate_edits_no_TypeError: "validate_edits idx es \<noteq> Inl TypeError"
  by (induction es arbitrary: idx) (auto split: option.splits)

text \<open>
  C5. \<open>validate_edl\<close> raises exactly when the \<open>edits\<close> key is absent or some edit is
  rejected in the sense of \<open>spec_rejected\<close> (a required field missing, a duration
  \<open>\<le> 0\<close> or a start time \<open>< 0\<close>); in every other case it returns \<open>True\<close>; what
  it raises is one of the validator's own errors. Order
  and overlap are not checked: the EDL whose two well-formed edits start at 5 and at 0,
  each of duration 10, validates.
\<close>

theorem validate_edl_raises_iff:
  "((\<exists>err. validate_edl e = Inl err) \<longleftrightarrow>
      (edits e = None \<or> (\<exists>es. edits e = Some es \<and> (\<exists>ed \<in> set es. spec_rejected ed)))) \<and>
   (validate_edl e = Inr True \<longleftrightarrow>
      (\<exists>es. edits e = Some es \<and> \<not> (\<exists>ed \<in> set es. spec_rejected ed))) \<and>
   validate_edl e \<noteq> Inl TypeError \<and>
   validate_edl
     \<lparr>metadata = None,
      edits = Some
        [\<lparr>start_time = Some 5, duration = Some 10, b_roll_clip = Some ''c'',
          reason = Some ''r'', transcript_text = None, similarity_score = None\<rparr>,
         \<lparr>start_time = Some 0, duration = Some 10, b_roll_clip = Some ''c'',
          reason = Some ''r'', transcript_text = None, similarity_score = None\<rparr>]\<rparr> = Inr True"
proof (intro conjI)
  show raises: "(\<exists>err. validate_edl e = Inl err) \<longleftrightarrow>
      (edits e = None \<or> (\<exists>es. edits e = Some es \<and> (\<exists>ed \<in> set es. spec_rejected ed)))"
  proof (cases "edits e")
    case None
    then show ?thesis by (simp add: validate_edl_def)
  next
    case (Some es)
    with validate_edits_raises_iff [of 0 es] show ?thesis
      by (simp add: validate_edl_def)
  qed
  show "validate_edl e = Inr True \<longleftrightarrow>
      (\<exists>es. edits e = Some es \<and> \<not> (\<exists>ed \<in> set es. spec_rejected ed))"
  proof (cases "edits e")
    case None
    then show ?thesis by (simp add: validate_edl_def)
  next
    case (Some es)
    from validate_edits_total [of 0 es] validate_edits_raises_iff [of 0 es] Some
    show ?thesis
      by (auto simp: validate_edl_def)
  qed
  show "validate_edl e \<noteq> Inl TypeError"
    by (simp add: validate_edl_def validate_edits_no_TypeError split: option.splits)
  show "validate_edl
     \<lparr>metadata = None,
      edits = Some
        [\<lparr>start_time = Some 5, duration = Some 10, b_roll_clip = Some ''c'',
          reason = Some ''r'', transcript_text = None, similarity_score = None\<rparr>,
         \<lparr>start_time = Some 0, duration = Some 10, b_roll_clip = Some ''c'',
          reason = Some ''r'', transcript_text = None, similarity_score = None\<rparr>]\<rparr> = Inr True"
    by (simp add: validate_edl_def)
qed

theorem validate_edl_raises_iff_witness:
  "spec_rejected
     \<lparr>start_time = Some 0, duration = Some 0, b_roll_clip = Some ''c'',
      reason = Some ''r'', transcript_text = None, similarity_score = None\<rparr> \<and>
   (\<exists>err. validate_edl
      \<lparr>metadata = None,
       edits = Some
         [\<lparr>start_time = Some 0, duration = Some 0, b_roll_clip = Some ''c'',
           reason = Some ''r'', transcript_text = None, similarity_score = None\<rparr>]\<rparr> = Inl err)"
  using validate_edl_raises_iff
    [of "\<lparr>metadata = None,
         edits = Some
           [\<lparr>start_time = Some 0, duration = Some 0, b_roll_clip = Some ''c'',
             reason = Some ''r'', transcript_text = None, similarity_score = None\<rparr>]\<rparr>"]
  by (simp add: spec_rejected_def)

subsection \<open>The planner and its validator\<close>

lemma generate_edit_plan_validates:
  assumes starts: "\<forall>s \<in> set segs. 0 \<le> seg_start s"
    and run: "generate_edit_plan C segs cs threshold min_gap = Inr e"
  shows "validate_edl e = Inr True"
proof -
  from generate_edit_plan_Inr [OF run] obtain st where
    loop: "plan_loop C cs threshold min_gap segs \<lparr>st_edits = [], last_edit_time = - min_gap\<rparr> = Inr st"
    and es: "edits e = Some (st_edits st)"
    by blast
  have "\<not> spec_rejected ed" if "ed \<in> set (st_edits st)" for ed
    using plan_loop_edits [OF loop that]
  proof (elim bexE exE conjE)
    fix seg and c :: clip and sim r
    assume seg: "seg \<in> set segs"
      and long: "2 \<le> min ((seg_end seg - seg_start seg) * 0.8) (seg_end seg - seg_start seg)"
      and ed: "ed = \<lparr>start_time = Some (seg_start seg),
                  duration = Some (py_round (min ((seg_end seg - seg_start seg) * 0.8)
                                                 (seg_end seg - seg_start seg)) 2),
                  b_roll_clip = Some (clip_name c),
                  reason = Some r,
                  transcript_text = Some (take 100 (seg_text seg)),
                  similarity_score = Some (py_round sim 3)\<rparr>"
    from long have "2 \<le> py_round (min ((seg_end seg - seg_start seg) * 0.8)
                                       (seg_end seg - seg_start seg)) 2"
      by (rule py_round_ge_2)
    moreover from starts seg have "0 \<le> seg_start seg" by blast
    ultimately show ?thesis
      unfolding ed spec_rejected_def by simp
  qed
  then have "\<not> (\<exists>ed \<in> set (st_edits st). spec_rejected ed)" by blast
  with validate_edits_total [of 0 "st_edits st"] validate_edits_raises_iff [of 0 "st_edits st"] es
  show ?thesis by (auto simp: validate_edl_def)
qed

text \<open>
  C8. The planner's output is claimed to pass the validator for every threshold, when every
  segment starts at 0 or later. Every EDL the planner returns does pass
  (\<open>generate_edit_plan_validates\<close>), and it returns one whenever the threshold is above
  \<open>- 1\<close> (\<open>generate_edit_plan_returns\<close>). With the threshold \<open>- 1\<close> and a clip
  scoring \<open>- 1\<close> the matcher raises \<open>TypeError\<close>, the planner does not catch it, and
  no EDL is produced.
\<close>

theorem generate_edit_plan_sentinel_raises:
  "generate_edit_plan opposed_provider
     [\<lparr>seg_start = 0, seg_end = 10, seg_text = ''a''\<rparr>]
     [\<lparr>clip_name = ''c'', description = ''d''\<rparr>] (- 1) 8 = Inl TypeError"
  by (simp add: generate_edit_plan_def plan_step_def find_best_match_def get_embedding_def
      opposed_provider_def compute_similarity_def cosine_similarity_def normalize_row_def
      l2_norm_def)

end
